theory Spec2Isabelle
  imports Main "HOL-Library.Word"
begin

section \<open>JavaScript values\<close>

text \<open>
  The action is a JavaScript module: three asynchronous handlers (\<open>invoke\<close>, \<open>error\<close>,
  \<open>halt\<close>) over untyped values. A JavaScript string is a sequence of 16-bit code units,
  and that is what \<open>startsWith\<close>, \<open>substring\<close>, \<open>endsWith\<close>, \<open>slice\<close> and
  \<open>encodeURIComponent\<close> count, so strings are lists of 16-bit words here. The source's
  string literals are all ASCII; \<open>js\<close> turns such a literal into its code units.
\<close>

type_synonym code_unit = "16 word"
type_synonym jsstring = "code_unit list"

definition js :: "string \<Rightarrow> jsstring" where
  "js s = map of_char s"

text \<open>
  Numbers are the integers from \<open>-2\<^sup>5\<^sup>3\<close> to \<open>2\<^sup>5\<^sup>3 - 1\<close>, as a signed 54-bit word
  (read with \<open>sint\<close>): JavaScript represents each of them exactly and prints it in plain
  decimal digits. An HTTP status code is one. Fractions and larger numbers, whose printing
  is floating-point formatting, are outside the type, and so is the negative zero (which
  tests and prints as zero does).
\<close>

type_synonym number = "54 word"

text \<open>
  Values: the JSON values (what the framework passes as parameters and what
  \<open>response.json()\<close> yields), \<open>undefined\<close>, and Error objects.
  \<open>JErr name message statusCode\<close> is an Error object with its \<open>name\<close>, its \<open>message\<close>
  and the \<open>statusCode\<close> property that \<open>invoke\<close> assigns (\<open>None\<close> when it was never
  assigned). \<open>JObj\<close> is a plain object (its prototype is \<open>Object.prototype\<close>), given as
  the list of its own properties; the first entry of a key is the property's value. No
  value is callable.
\<close>

datatype jsval =
    JUndefined
  | JNull
  | JBool bool
  | JNum number
  | JStr jsstring
  | JArr "jsval list"
  | JObj "(jsstring \<times> jsval) list"
  | JErr jsstring jsstring "number option"

type_synonym obj = "(jsstring \<times> jsval) list"

text \<open>\<open>new Error(message)\<close>, and the errors the runtime itself raises.\<close>

definition Error :: "jsstring \<Rightarrow> jsval" where
  "Error message = JErr (js ''Error'') message None"

definition TypeError :: "jsstring \<Rightarrow> jsval" where
  "TypeError message = JErr (js ''TypeError'') message None"

definition URIError :: "jsstring \<Rightarrow> jsval" where
  "URIError message = JErr (js ''URIError'') message None"

text \<open>Truthiness, as \<open>!v\<close>, \<open>v || d\<close> and \<open>if (v)\<close> test it.\<close>

fun truthy :: "jsval \<Rightarrow> bool" where
  "truthy JUndefined = False"
| "truthy JNull = False"
| "truthy (JBool b) = b"
| "truthy (JNum n) = (n \<noteq> 0)"
| "truthy (JStr s) = (s \<noteq> [])"
| "truthy (JArr xs) = True"
| "truthy (JObj kvs) = True"
| "truthy (JErr name message statusCode) = True"

text \<open>\<open>typeof v === 'string'\<close>.\<close>

fun is_string :: "jsval \<Rightarrow> bool" where
  "is_string (JStr s) = True"
| "is_string v = False"

text \<open>\<open>a || b\<close> on values.\<close>

definition or_else :: "jsval \<Rightarrow> jsval \<Rightarrow> jsval" where
  "or_else a b = (if truthy a then a else b)"

text \<open>Decimal digits of a natural number, as number-to-string conversion prints them.\<close>

fun show_nat :: "nat \<Rightarrow> jsstring" where
  "show_nat n =
     (if n < 10 then [of_nat (48 + n)]
      else show_nat (n div 10) @ [of_nat (48 + n mod 10)])"

declare show_nat.simps [simp del]

fun join_comma :: "jsstring list \<Rightarrow> jsstring" where
  "join_comma [] = []"
| "join_comma [x] = x"
| "join_comma (x # y # ys) = x @ js '','' @ join_comma (y # ys)"

text \<open>Number-to-string conversion: the decimal digits, with a minus sign below zero.\<close>

definition number_to_string :: "number \<Rightarrow> jsstring" where
  "number_to_string n =
     (if sint n < 0 then js ''-'' @ show_nat (nat (- sint n)) else show_nat (nat (sint n)))"

text \<open>
  Evaluating steps in order until the first one that throws: the results of all of them,
  or the first error.
\<close>

fun collect :: "(jsval + 'a) list \<Rightarrow> jsval + 'a list" where
  "collect [] = Inr []"
| "collect (Inl e # rs) = Inl e"
| "collect (Inr x # rs) = (case collect rs of Inl e \<Rightarrow> Inl e | Inr xs \<Rightarrow> Inr (x # xs))"

text \<open>
  String conversion, as a template literal \<open>`${v}`\<close> and \<open>encodeURIComponent(v)\<close> apply
  it. It throws a TypeError on an object that has an own property \<open>toString\<close>: that
  property hides \<open>Object.prototype.toString\<close> and is not callable, and the inherited
  \<open>valueOf\<close> returns the object itself. Any other plain object prints as
  \<open>[object Object]\<close>. An array joins the conversions of its elements with commas
  (\<open>null\<close> and \<open>undefined\<close> elements print as nothing) and throws when one of them
  does. An Error object prints as \<open>name: message\<close>.
\<close>

fun to_string :: "jsval \<Rightarrow> jsval + jsstring" where
  "to_string JUndefined = Inr (js ''undefined'')"
| "to_string JNull = Inr (js ''null'')"
| "to_string (JBool b) = Inr (if b then js ''true'' else js ''false'')"
| "to_string (JNum n) = Inr (number_to_string n)"
| "to_string (JStr s) = Inr s"
| "to_string (JArr xs) =
     (case collect (map (\<lambda>x. case x of JUndefined \<Rightarrow> Inr [] | JNull \<Rightarrow> Inr []
                                 | _ \<Rightarrow> to_string x) xs) of
        Inl e \<Rightarrow> Inl e
      | Inr ss \<Rightarrow> Inr (join_comma ss))"
| "to_string (JObj kvs) =
     (case map_of kvs (js ''toString'') of
        None \<Rightarrow> Inr (js ''[object Object]'')
      | Some v \<Rightarrow> Inl (TypeError (js ''Cannot convert object to primitive value'')))"
| "to_string (JErr name message statusCode) =
     Inr (if name = [] then message
          else if message = [] then name
          else name @ js '': '' @ message)"

text \<open>
  A template literal: its pieces are the literal texts (\<open>Inr\<close> of the text) and the
  conversions of the substituted values, made from left to right; the first conversion that
  throws ends it.
\<close>

definition template :: "(jsval + jsstring) list \<Rightarrow> jsval + jsstring" where
  "template pieces = (case collect pieces of Inl e \<Rightarrow> Inl e | Inr ss \<Rightarrow> Inr (concat ss))"

text \<open>Reading an own property of an object given as its property list.\<close>

definition get :: "obj \<Rightarrow> jsstring \<Rightarrow> jsval" where
  "get kvs k = (case map_of kvs k of None \<Rightarrow> JUndefined | Some v \<Rightarrow> v)"

text \<open>
  Property access \<open>v.k\<close> on any value: a TypeError on \<open>undefined\<close> and \<open>null\<close>, the own
  property on an object. It is used at the keys \<open>errorSummary\<close>, \<open>message\<close>, \<open>ADDRESS\<close>
  and the secrets' names only, none of which is a built-in property of a string, number,
  boolean or array, so those yield \<open>undefined\<close>.
\<close>

fun get_prop :: "jsval \<Rightarrow> jsstring \<Rightarrow> jsval + jsval" where
  "get_prop JUndefined k =
     Inl (TypeError (js ''Cannot read properties of undefined (reading '' @ [0x27] @ k @ [0x27] @ js '')''))"
| "get_prop JNull k =
     Inl (TypeError (js ''Cannot read properties of null (reading '' @ [0x27] @ k @ [0x27] @ js '')''))"
| "get_prop (JObj kvs) k = Inr (get kvs k)"
| "get_prop (JErr name message statusCode) k =
     Inr (if k = js ''message'' then JStr message
          else if k = js ''name'' then JStr name
          else if k = js ''statusCode'' then (case statusCode of None \<Rightarrow> JUndefined | Some c \<Rightarrow> JNum c)
          else JUndefined)"
| "get_prop v k = Inr JUndefined"

text \<open>Optional chaining \<open>v?.k\<close>: \<open>undefined\<close> instead of the TypeError.\<close>

definition get_prop_opt :: "jsval \<Rightarrow> jsstring \<Rightarrow> jsval" where
  "get_prop_opt v k = (case get_prop v k of Inl e \<Rightarrow> JUndefined | Inr x \<Rightarrow> x)"

text \<open>\<open>s.startsWith(p)\<close> and \<open>s.endsWith(p)\<close>.\<close>

definition startsWith :: "jsstring \<Rightarrow> jsstring \<Rightarrow> bool" where
  "startsWith s p \<longleftrightarrow> take (length p) s = p"

definition endsWith :: "jsstring \<Rightarrow> jsstring \<Rightarrow> bool" where
  "endsWith s p \<longleftrightarrow> length p \<le> length s \<and> drop (length s - length p) s = p"

section \<open>The execution context and the world outside\<close>

text \<open>
  The object the framework passes as second argument, \<open>context\<close> in the source; the
  handlers read its \<open>environment\<close>, \<open>secrets\<close> and \<open>data\<close> properties
  (\<open>JUndefined\<close> when absent).
\<close>

record job_context =
  environment :: jsval
  secrets :: jsval
  data :: jsval

text \<open>
  A request as \<open>fetch(url, {method, headers})\<close> receives it (\<open>http_method\<close> is its
  \<open>method\<close>), and the part of a response
  the handlers read: \<open>response.ok\<close>, \<open>response.status\<close> and the outcome of
  \<open>response.json()\<close> (\<open>Inl\<close> the error it raises on a body that is not JSON, \<open>Inr\<close>
  the parsed body).
\<close>

record request =
  url :: jsstring
  http_method :: jsstring
  headers :: "(jsstring \<times> jsstring) list"

record response =
  ok :: bool
  status :: number
  json :: "jsval + jsval"

text \<open>
  What a handler run depends on outside its arguments: the network (\<open>fetch\<close>, \<open>Inl\<close> when
  the promise rejects), the clock (\<open>new Date().toISOString()\<close>), and the functions of the
  shared utilities package that a run calls: the template pre-pass, base-64 encoding and
  the OAuth2 token exchange.
\<close>

record world =
  fetch :: "request \<Rightarrow> jsval + response"
  now :: jsstring
  resolveJSONPathTemplates :: "obj \<Rightarrow> jsval \<Rightarrow> obj \<times> jsval list"
  btoa :: "jsstring \<Rightarrow> jsstring"
  getClientCredentialsToken ::
    "jsstring \<Rightarrow> jsstring \<Rightarrow> jsstring \<Rightarrow> jsval \<Rightarrow> jsval \<Rightarrow> jsval \<Rightarrow> jsval + jsstring"

text \<open>
  What a run does to the outside, in order: requests to the target API, console lines
  (with the arguments of the call), requests to the OAuth2 token endpoint.
\<close>

datatype event =
    Fetch request
  | ConsoleLog "jsval list"
  | ConsoleWarn "jsval list"
  | ConsoleError "jsval list"
  | TokenRequest jsstring

text \<open>A handler's outcome: the value it throws (\<open>Inl\<close>) or returns (\<open>Inr\<close>), and its events.\<close>

type_synonym 'a outcome = "(jsval + 'a) \<times> event list"

definition fetches :: "event list \<Rightarrow> request list" where
  "fetches evs = concat (map (\<lambda>e. case e of Fetch r \<Rightarrow> [r] | _ \<Rightarrow> []) evs)"

section \<open>encodeURIComponent\<close>

text \<open>
  The characters \<open>encodeURIComponent\<close> leaves as they are: ASCII letters, digits and
  \<open>- _ . ! ~ * ' ( )\<close>.
\<close>

definition unreserved :: "code_unit \<Rightarrow> bool" where
  "unreserved c \<longleftrightarrow>
     c \<in> set (js ''ABCDEFGHIJKLMNOPQRSTUVWXYZabcdefghijklmnopqrstuvwxyz0123456789-_.!~*()'' @ [0x27])"

definition hex_digit :: "nat \<Rightarrow> code_unit" where
  "hex_digit d = js ''0123456789ABCDEF'' ! (d mod 16)"

definition percent :: "nat \<Rightarrow> jsstring" where
  "percent b = [0x25, hex_digit (b div 16), hex_digit (b mod 16)]"

definition utf8 :: "nat \<Rightarrow> nat list" where
  "utf8 cp =
     (if cp < 0x80 then [cp]
      else if cp < 0x800 then [0xC0 + cp div 64, 0x80 + cp mod 64]
      else if cp < 0x10000 then [0xE0 + cp div 4096, 0x80 + cp div 64 mod 64, 0x80 + cp mod 64]
      else [0xF0 + cp div 262144, 0x80 + cp div 4096 mod 64, 0x80 + cp div 64 mod 64,
            0x80 + cp mod 64])"

definition is_lead :: "code_unit \<Rightarrow> bool" where
  "is_lead c \<longleftrightarrow> 0xD800 \<le> c \<and> c \<le> 0xDBFF"

definition is_trail :: "code_unit \<Rightarrow> bool" where
  "is_trail c \<longleftrightarrow> 0xDC00 \<le> c \<and> c \<le> 0xDFFF"

definition code_point :: "code_unit \<Rightarrow> code_unit \<Rightarrow> nat" where
  "code_point lead trail = (unat lead - 0xD800) * 0x400 + (unat trail - 0xDC00) + 0x10000"

text \<open>
  The encoding loop of the language standard: an unreserved code unit is copied; any other
  code point is written as the percent-escapes of its UTF-8 octets; a surrogate without
  its partner raises a URIError.
\<close>

fun Encode :: "jsstring \<Rightarrow> jsval + jsstring" where
  "Encode [] = Inr []"
| "Encode (c # cs) =
     (if unreserved c then
        (case Encode cs of Inl e \<Rightarrow> Inl e | Inr r \<Rightarrow> Inr (c # r))
      else if is_lead c then
        (case cs of
           [] \<Rightarrow> Inl (URIError (js ''URI malformed''))
         | d # ds \<Rightarrow>
             if is_trail d then
               (case Encode ds of
                  Inl e \<Rightarrow> Inl e
                | Inr r \<Rightarrow> Inr (concat (map percent (utf8 (code_point c d))) @ r))
             else Inl (URIError (js ''URI malformed'')))
      else if is_trail c then Inl (URIError (js ''URI malformed''))
      else
        (case Encode cs of
           Inl e \<Rightarrow> Inl e
         | Inr r \<Rightarrow> Inr (concat (map percent (utf8 (unat c))) @ r)))"

text \<open>\<open>encodeURIComponent(v)\<close> converts its argument to a string first.\<close>

definition encodeURIComponent :: "jsval \<Rightarrow> jsval + jsstring" where
  "encodeURIComponent v = (case to_string v of Inl e \<Rightarrow> Inl e | Inr s \<Rightarrow> Encode s)"

section \<open>The shared utilities\<close>

text \<open>
  \<open>getBaseUrl(params, context)\<close> of the shared utilities package, as the bundle carries
  it (\<open>script.mjs\<close> imports it under the name \<open>getBaseURL\<close>). The environment is
  \<open>context.environment || {}\<close>, so reading \<open>ADDRESS\<close> from it never raises. An
  address that is truthy but not a string has no \<open>endsWith\<close> method, which is a
  TypeError.
\<close>

definition getBaseUrl :: "obj \<Rightarrow> job_context \<Rightarrow> jsval + jsstring" where
  "getBaseUrl params context =
     (let env = or_else (environment context) (JObj []);
          address = (if truthy (get params (js ''address'')) then get params (js ''address'')
                     else get_prop_opt env (js ''ADDRESS''))
      in if \<not> truthy address then
           Inl (Error (js ''No URL specified. Provide address parameter or ADDRESS environment variable''))
         else (case address of
                 JStr a \<Rightarrow> Inr (if endsWith a (js ''/'') then take (length a - 1) a else a)
               | _ \<Rightarrow> Inl (TypeError (js ''address.endsWith is not a function''))))"

text \<open>
  Modelled from the spec: the test for credential material of the authorization resolver,
  which the sources do not contain. A credential is present when the property holds a
  non-empty string; secrets are read from \<open>context.secrets\<close>, configuration from
  \<open>context.environment\<close>.
\<close>

definition material :: "jsval \<Rightarrow> jsstring \<Rightarrow> jsstring option" where
  "material store k =
     (case get_prop_opt store k of JStr s \<Rightarrow> (if s = [] then None else Some s) | _ \<Rightarrow> None)"

text \<open>
  Modelled from the spec: \<open>getAuthorizationHeader\<close> of the shared utilities package, which
  \<open>script.mjs\<close> imports and the sources do not contain. Following section 4.1 step 4 of
  the specification, it inspects the credential material in a fixed precedence (bearer
  token; basic username and password; OAuth2 client credentials, where the token exchange
  is performed and its token returned in a bearer-style header; OAuth2 pre-issued access
  token) and fails with the error \<open>No authentication configured\<close> when none of the four
  schemes has sufficient material. The names of the secrets and environment variables are
  those of the doc comment of \<open>invoke\<close>.
\<close>

definition getAuthorizationHeader :: "world \<Rightarrow> job_context \<Rightarrow> jsstring outcome" where
  "getAuthorizationHeader w context =
     (let sec = secrets context; env = environment context in
      case material sec (js ''BEARER_AUTH_TOKEN'') of
        Some token \<Rightarrow> (Inr (js ''Bearer '' @ token), [])
      | None \<Rightarrow>
     (case (material sec (js ''BASIC_USERNAME''), material sec (js ''BASIC_PASSWORD'')) of
        (Some username, Some password) \<Rightarrow>
          (Inr (js ''Basic '' @ btoa w (username @ js '':'' @ password)), [])
      | _ \<Rightarrow>
     (case (material env (js ''OAUTH2_CLIENT_CREDENTIALS_CLIENT_ID''),
            material sec (js ''OAUTH2_CLIENT_CREDENTIALS_CLIENT_SECRET''),
            material env (js ''OAUTH2_CLIENT_CREDENTIALS_TOKEN_URL'')) of
        (Some clientId, Some clientSecret, Some tokenUrl) \<Rightarrow>
          (case getClientCredentialsToken w tokenUrl clientId clientSecret
                  (get_prop_opt env (js ''OAUTH2_CLIENT_CREDENTIALS_SCOPE''))
                  (get_prop_opt env (js ''OAUTH2_CLIENT_CREDENTIALS_AUDIENCE''))
                  (get_prop_opt env (js ''OAUTH2_CLIENT_CREDENTIALS_AUTH_STYLE'')) of
             Inl e \<Rightarrow> (Inl e, [TokenRequest tokenUrl])
           | Inr token \<Rightarrow> (Inr (js ''Bearer '' @ token), [TokenRequest tokenUrl]))
      | _ \<Rightarrow>
     (case material sec (js ''OAUTH2_AUTHORIZATION_CODE_ACCESS_TOKEN'') of
        Some token \<Rightarrow> (Inr (js ''Bearer '' @ token), [])
      | None \<Rightarrow> (Inl (Error (js ''No authentication configured'')), [])))))"

text \<open>
  Modelled from the spec: whether one of the four schemes has sufficient material present,
  as the resolver above tests it.
\<close>

definition credentials_configured :: "job_context \<Rightarrow> bool" where
  "credentials_configured context \<longleftrightarrow>
     material (secrets context) (js ''BEARER_AUTH_TOKEN'') \<noteq> None \<or>
     (material (secrets context) (js ''BASIC_USERNAME'') \<noteq> None \<and>
      material (secrets context) (js ''BASIC_PASSWORD'') \<noteq> None) \<or>
     (material (environment context) (js ''OAUTH2_CLIENT_CREDENTIALS_CLIENT_ID'') \<noteq> None \<and>
      material (secrets context) (js ''OAUTH2_CLIENT_CREDENTIALS_CLIENT_SECRET'') \<noteq> None \<and>
      material (environment context) (js ''OAUTH2_CLIENT_CREDENTIALS_TOKEN_URL'') \<noteq> None) \<or>
     material (secrets context) (js ''OAUTH2_AUTHORIZATION_CODE_ACCESS_TOKEN'') \<noteq> None"

section \<open>The action, as \<open>src/script.mjs\<close> has it\<close>

text \<open>
  The value \<open>invoke\<close> assigns to \<open>authHeader\<close> from the resolved header: a header of the
  form \<open>Bearer <token>\<close> loses its seven code units \<open>Bearer \<close> and gets the prefix
  \<open>SSWS \<close> unless the token starts with it; any other header is kept.
\<close>

definition authHeader :: "jsstring \<Rightarrow> jsstring" where
  "authHeader resolved =
     (if startsWith resolved (js ''Bearer '') then
        (let token = drop 7 resolved
         in if startsWith token (js ''SSWS '') then token else js ''SSWS '' @ token)
      else resolved)"

definition unassignUserFromGroup ::
    "world \<Rightarrow> jsval \<Rightarrow> jsval \<Rightarrow> jsstring \<Rightarrow> jsstring \<Rightarrow> response outcome" where
  "unassignUserFromGroup w userId groupId baseUrl header =
     (case encodeURIComponent userId of
        Inl e \<Rightarrow> (Inl e, [])
      | Inr encodedUserId \<Rightarrow>
     (case encodeURIComponent groupId of
        Inl e \<Rightarrow> (Inl e, [])
      | Inr encodedGroupId \<Rightarrow>
          (let req = \<lparr> url = baseUrl @ js ''/api/v1/groups/'' @ encodedGroupId
                               @ js ''/users/'' @ encodedUserId,
                       http_method = js ''DELETE'',
                       headers = [(js ''Authorization'', header),
                                  (js ''Accept'', js ''application/json''),
                                  (js ''Content-Type'', js ''application/json'')] \<rparr>
           in (fetch w req, [Fetch req]))))"

definition invoke :: "world \<Rightarrow> obj \<Rightarrow> job_context \<Rightarrow> jsval outcome" where
  "invoke w params context =
     (let jobContext = or_else (data context) (JObj []);
          (resolvedParams, errors) = resolveJSONPathTemplates w params jobContext;
          warned = (if length errors > 0
                    then [ConsoleWarn [JStr (js ''Template resolution errors:''), JArr errors]]
                    else []);
          userId = get resolvedParams (js ''userId'');
          groupId = get resolvedParams (js ''groupId'')
      in case template [Inr (js ''Starting Okta user group removal: user ''), to_string userId,
                        Inr (js '' from group ''), to_string groupId] of
           Inl e \<Rightarrow> (Inl e, warned)
         | Inr starting \<Rightarrow>
      (let started = warned @ [ConsoleLog [JStr starting]]
       in case getBaseUrl resolvedParams context of
           Inl e \<Rightarrow> (Inl e, started)
         | Inr baseUrl \<Rightarrow>
      (case getAuthorizationHeader w context of
           (Inl e, exchanged) \<Rightarrow> (Inl e, started @ exchanged)
         | (Inr resolved, exchanged) \<Rightarrow>
      (case unassignUserFromGroup w userId groupId baseUrl (authHeader resolved) of
           (Inl e, sent) \<Rightarrow> (Inl e, started @ exchanged @ sent)
         | (Inr response, sent) \<Rightarrow>
             if ok response then
               (case template [Inr (js ''Successfully removed user ''), to_string userId,
                               Inr (js '' from group ''), to_string groupId] of
                  Inl e \<Rightarrow> (Inl e, started @ exchanged @ sent)
                | Inr removed \<Rightarrow>
                    (Inr (JObj [(js ''userId'', userId),
                                (js ''groupId'', groupId),
                                (js ''removed'', JBool True),
                                (js ''address'', JStr baseUrl),
                                (js ''removedAt'', JStr (now w))]),
                     started @ exchanged @ sent @ [ConsoleLog [JStr removed]]))
             else
               (let statusCode = status response;
                    byStatus = js ''Failed to remove user from group: HTTP ''
                               @ number_to_string statusCode;
                    unparsed = [ConsoleError [JStr (js ''Failed to parse error response'')]]
                in case json response of
                     Inl e \<Rightarrow>
                       (Inl (JErr (js ''Error'') byStatus (Some statusCode)),
                        started @ exchanged @ sent @ unparsed)
                   | Inr errorBody \<Rightarrow>
                (case get_prop errorBody (js ''errorSummary'') of
                     Inl e \<Rightarrow>
                       (Inl (JErr (js ''Error'') byStatus (Some statusCode)),
                        started @ exchanged @ sent @ unparsed)
                   | Inr errorSummary \<Rightarrow>
                       if truthy errorSummary then
                         (case template [Inr (js ''Failed to remove user from group: ''),
                                         to_string errorSummary] of
                            Inl e \<Rightarrow>
                              (Inl (JErr (js ''Error'') byStatus (Some statusCode)),
                               started @ exchanged @ sent @ unparsed)
                          | Inr bySummary \<Rightarrow>
                              (Inl (JErr (js ''Error'') bySummary (Some statusCode)),
                               started @ exchanged @ sent @
                                 [ConsoleError [JStr (js ''Okta API error response:''), errorBody]]))
                       else
                         (Inl (JErr (js ''Error'') byStatus (Some statusCode)),
                          started @ exchanged @ sent @
                            [ConsoleError [JStr (js ''Okta API error response:''), errorBody]])))))))"

text \<open>
  The error handler. It builds the log line first: the conversions of \<open>userId\<close> and
  \<open>groupId\<close>, then the read of \<open>error.message\<close> (a TypeError when \<open>params.error\<close> is
  \<open>undefined\<close> or \<open>null\<close>) and its conversion. When the line is built it is logged and
  the value of \<open>params.error\<close> is thrown; when building it throws, that error is thrown
  and nothing is logged.
\<close>

definition error :: "world \<Rightarrow> obj \<Rightarrow> job_context \<Rightarrow> jsval outcome" where
  "error w params context =
     (let err = get params (js ''error'');
          userId = get params (js ''userId'');
          groupId = get params (js ''groupId'')
      in case template [Inr (js ''User group removal failed for user ''), to_string userId,
                        Inr (js '' from group ''), to_string groupId,
                        Inr (js '': ''),
                        (case get_prop err (js ''message'') of
                           Inl e \<Rightarrow> Inl e
                         | Inr message \<Rightarrow> to_string message)] of
           Inl e \<Rightarrow> (Inl e, [])
         | Inr failed \<Rightarrow> (Inl err, [ConsoleError [JStr failed]]))"

text \<open>
  The halt handler. Its log line converts \<open>reason\<close>, \<open>userId\<close> and \<open>groupId\<close> before
  the record is built, so a value that cannot be converted makes it throw.
\<close>

definition halt :: "world \<Rightarrow> obj \<Rightarrow> job_context \<Rightarrow> jsval outcome" where
  "halt w params context =
     (let reason = get params (js ''reason'');
          userId = get params (js ''userId'');
          groupId = get params (js ''groupId'')
      in case template [Inr (js ''User group removal job is being halted (''), to_string reason,
                        Inr (js '') for user ''), to_string userId,
                        Inr (js '' from group ''), to_string groupId] of
           Inl e \<Rightarrow> (Inl e, [])
         | Inr halted \<Rightarrow>
             (Inr (JObj [(js ''userId'', or_else userId (JStr (js ''unknown''))),
                         (js ''groupId'', or_else groupId (JStr (js ''unknown''))),
                         (js ''reason'', reason),
                         (js ''haltedAt'', JStr (now w)),
                         (js ''cleanupCompleted'', JBool True)]),
              [ConsoleLog [JStr halted]]))"

section \<open>The action, as the bundle \<open>dist/index.js\<close> has it\<close>

text \<open>
  The bundle was built from an earlier state of the script: it validates \<open>userId\<close> and
  \<open>groupId\<close>, reads the bearer token secret itself, and prefixes the token inside the
  request helper. A token that is truthy but not a string has no \<open>startsWith\<close> method.
  (The sources also hold a still earlier bundle, which takes an \<open>oktaDomain\<close> parameter
  in place of the address; no property below is about it.)
\<close>

definition unassignUserFromGroup_bundle ::
    "world \<Rightarrow> jsval \<Rightarrow> jsval \<Rightarrow> jsstring \<Rightarrow> jsval \<Rightarrow> response outcome" where
  "unassignUserFromGroup_bundle w userId groupId baseUrl authToken =
     (case encodeURIComponent userId of
        Inl e \<Rightarrow> (Inl e, [])
      | Inr encodedUserId \<Rightarrow>
     (case encodeURIComponent groupId of
        Inl e \<Rightarrow> (Inl e, [])
      | Inr encodedGroupId \<Rightarrow>
     (case authToken of
        JStr token \<Rightarrow>
          (let header = (if startsWith token (js ''SSWS '') then token else js ''SSWS '' @ token);
               req = \<lparr> url = baseUrl @ js ''/api/v1/groups/'' @ encodedGroupId
                               @ js ''/users/'' @ encodedUserId,
                       http_method = js ''DELETE'',
                       headers = [(js ''Authorization'', header),
                                  (js ''Accept'', js ''application/json''),
                                  (js ''Content-Type'', js ''application/json'')] \<rparr>
           in (fetch w req, [Fetch req]))
      | _ \<Rightarrow> (Inl (TypeError (js ''authToken.startsWith is not a function'')), []))))"

definition invoke_bundle :: "world \<Rightarrow> obj \<Rightarrow> job_context \<Rightarrow> jsval outcome" where
  "invoke_bundle w params context =
     (let userId = get params (js ''userId'');
          groupId = get params (js ''groupId'')
      in case template [Inr (js ''Starting Okta user group removal: user ''), to_string userId,
                        Inr (js '' from group ''), to_string groupId] of
           Inl e \<Rightarrow> (Inl e, [])
         | Inr starting \<Rightarrow>
      (let started = [ConsoleLog [JStr starting]]
       in if \<not> truthy userId \<or> \<not> is_string userId then
           (Inl (Error (js ''Invalid or missing userId parameter'')), started)
         else if \<not> truthy groupId \<or> \<not> is_string groupId then
           (Inl (Error (js ''Invalid or missing groupId parameter'')), started)
         else
      (case getBaseUrl params context of
           Inl e \<Rightarrow> (Inl e, started)
         | Inr baseUrl \<Rightarrow>
             if \<not> truthy (get_prop_opt (secrets context) (js ''BEARER_AUTH_TOKEN'')) then
               (Inl (Error (js ''Missing required secret: BEARER_AUTH_TOKEN'')), started)
             else
      (case unassignUserFromGroup_bundle w userId groupId baseUrl
              (get_prop_opt (secrets context) (js ''BEARER_AUTH_TOKEN'')) of
           (Inl e, sent) \<Rightarrow> (Inl e, started @ sent)
         | (Inr response, sent) \<Rightarrow>
             if ok response then
               (case template [Inr (js ''Successfully removed user ''), to_string userId,
                               Inr (js '' from group ''), to_string groupId] of
                  Inl e \<Rightarrow> (Inl e, started @ sent)
                | Inr removed \<Rightarrow>
                    (Inr (JObj [(js ''userId'', userId),
                                (js ''groupId'', groupId),
                                (js ''removed'', JBool True),
                                (js ''address'', JStr baseUrl),
                                (js ''removedAt'', JStr (now w))]),
                     started @ sent @ [ConsoleLog [JStr removed]]))
             else
               (let statusCode = status response;
                    byStatus = js ''Failed to remove user from group: HTTP ''
                               @ number_to_string statusCode;
                    unparsed = [ConsoleError [JStr (js ''Failed to parse error response'')]]
                in case json response of
                     Inl e \<Rightarrow>
                       (Inl (JErr (js ''Error'') byStatus (Some statusCode)),
                        started @ sent @ unparsed)
                   | Inr errorBody \<Rightarrow>
                (case get_prop errorBody (js ''errorSummary'') of
                     Inl e \<Rightarrow>
                       (Inl (JErr (js ''Error'') byStatus (Some statusCode)),
                        started @ sent @ unparsed)
                   | Inr errorSummary \<Rightarrow>
                       if truthy errorSummary then
                         (case template [Inr (js ''Failed to remove user from group: ''),
                                         to_string errorSummary] of
                            Inl e \<Rightarrow>
                              (Inl (JErr (js ''Error'') byStatus (Some statusCode)),
                               started @ sent @ unparsed)
                          | Inr bySummary \<Rightarrow>
                              (Inl (JErr (js ''Error'') bySummary (Some statusCode)),
                               started @ sent @
                                 [ConsoleError [JStr (js ''Okta API error response:''), errorBody]]))
                       else
                         (Inl (JErr (js ''Error'') byStatus (Some statusCode)),
                          started @ sent @
                            [ConsoleError [JStr (js ''Okta API error response:''), errorBody]])))))))"

section \<open>Notions the properties are stated with\<close>

text \<open>
  A string is well formed when every surrogate code unit is half of a lead-trail pair;
  these are the strings on which \<open>encodeURIComponent\<close> does not raise.
\<close>

fun well_formed :: "jsstring \<Rightarrow> bool" where
  "well_formed [] = True"
| "well_formed (c # cs) =
     (if is_lead c then (case cs of [] \<Rightarrow> False | d # ds \<Rightarrow> is_trail d \<and> well_formed ds)
      else \<not> is_trail c \<and> well_formed cs)"

text \<open>
  A value is convertible when its string conversion does not throw. Strings, numbers,
  booleans, \<open>null\<close>, \<open>undefined\<close>, Error objects and objects without an own
  \<open>toString\<close> property are.
\<close>

definition convertible :: "jsval \<Rightarrow> bool" where
  "convertible v = (case to_string v of Inl e \<Rightarrow> False | Inr s \<Rightarrow> True)"

text \<open>The value of \<open>resolvedParams\<close> in a run of \<open>invoke\<close>.\<close>

definition resolvedParams :: "world \<Rightarrow> obj \<Rightarrow> job_context \<Rightarrow> obj" where
  "resolvedParams w params context =
     fst (resolveJSONPathTemplates w params (or_else (data context) (JObj [])))"

text \<open>The segments of a path: the pieces between the separators.\<close>

fun split_on :: "code_unit \<Rightarrow> jsstring \<Rightarrow> jsstring list" where
  "split_on sep [] = [[]]"
| "split_on sep (c # cs) =
     (if c = sep then [] # split_on sep cs
      else (case split_on sep cs of [] \<Rightarrow> [[c]] | s # ss \<Rightarrow> (c # s) # ss))"

section \<open>Fixtures of the test suite\<close>

text \<open>
  The context and the mocked responses of \<open>tests/script.test.js\<close>: a bearer token secret
  and no \<open>environment\<close>; a 204 response without body, a 404 response with an Okta error
  body, a 500 response whose body is not JSON. The mocked world answers every request with
  the given response and leaves the parameters as they are in the template pre-pass; base-64
  encoding and the token exchange are not reached with a bearer token secret.
\<close>

definition mockContext :: job_context where
  "mockContext =
     \<lparr> environment = JUndefined,
       secrets = JObj [(js ''BEARER_AUTH_TOKEN'', JStr (js ''test-okta-token-123456''))],
       data = JUndefined \<rparr>"

definition contextWithoutToken :: job_context where
  "contextWithoutToken = \<lparr> environment = JUndefined, secrets = JObj [], data = JUndefined \<rparr>"

definition noContent :: response where
  "noContent =
     \<lparr> ok = True, status = 204, json = Inl (TypeError (js ''response.json is not a function'')) \<rparr>"

definition notFound :: response where
  "notFound =
     \<lparr> ok = False, status = 404,
       json = Inr (JObj [(js ''errorCode'', JStr (js ''E0000007'')),
                         (js ''errorSummary'',
                          JStr (js ''Not found: User user123 not found in group group456'')),
                         (js ''errorLink'', JStr (js ''E0000007'')),
                         (js ''errorId'', JStr (js ''oae123''))]) \<rparr>"

definition notJson :: response where
  "notJson = \<lparr> ok = False, status = 500, json = Inl (Error (js ''Not JSON'')) \<rparr>"

definition mockWorld :: "response \<Rightarrow> world" where
  "mockWorld r =
     \<lparr> fetch = (\<lambda>req. Inr r),
       now = js ''2024-01-15T10:30:00.000Z'',
       resolveJSONPathTemplates = (\<lambda>params jobContext. (params, [])),
       btoa = (\<lambda>s. s),
       getClientCredentialsToken =
         (\<lambda>tokenUrl clientId clientSecret scope audience authStyle.
            Inl (Error (js ''token endpoint not mocked''))) \<rparr>"

text \<open>The request the mocked runs send for \<open>user123\<close> and \<open>group456\<close>.\<close>

definition mockRequest :: request where
  "mockRequest =
     \<lparr> url = js ''https://example.okta.com/api/v1/groups/group456/users/user123'',
       http_method = js ''DELETE'',
       headers = [(js ''Authorization'', js ''SSWS test-okta-token-123456''),
                  (js ''Accept'', js ''application/json''),
                  (js ''Content-Type'', js ''application/json'')] \<rparr>"

definition mockParams :: obj where
  "mockParams =
     [(js ''userId'', JStr (js ''user123'')),
      (js ''groupId'', JStr (js ''group456'')),
      (js ''address'', JStr (js ''https://example.okta.com''))]"

text \<open>
  Inputs beside those of the test suite: a failure response whose error body has an empty
  summary, identifiers with reserved characters (with the request they lead to), and
  parameters without \<open>userId\<close>.
\<close>

definition emptySummary :: response where
  "emptySummary =
     \<lparr> ok = False, status = 400, json = Inr (JObj [(js ''errorSummary'', JStr [])]) \<rparr>"

definition reservedParams :: obj where
  "reservedParams =
     [(js ''userId'', JStr (js ''a/b c'')),
      (js ''groupId'', JStr (js ''g/../admin'')),
      (js ''address'', JStr (js ''https://example.okta.com/''))]"

definition reservedRequest :: request where
  "reservedRequest =
     \<lparr> url = js ''https://example.okta.com/api/v1/groups/g%2F..%2Fadmin/users/a%2Fb%20c'',
       http_method = js ''DELETE'',
       headers = [(js ''Authorization'', js ''SSWS test-okta-token-123456''),
                  (js ''Accept'', js ''application/json''),
                  (js ''Content-Type'', js ''application/json'')] \<rparr>"

text \<open>A JSON object that cannot be converted to a string: \<open>{"toString": 1}\<close>.\<close>

definition unconvertible :: jsval where
  "unconvertible = JObj [(js ''toString'', JNum 1)]"

definition missingUserId :: obj where
  "missingUserId =
     [(js ''groupId'', JStr (js ''group456'')),
      (js ''address'', JStr (js ''https://example.okta.com''))]"

section \<open>Base URL resolution\<close>

lemma js_slash: "js ''/'' = [0x2F]"
  by (simp add: js_def)

lemma endsWith_slash: "endsWith a (js ''/'') \<longleftrightarrow> a \<noteq> [] \<and> last a = 0x2F"
  by (cases a rule: rev_cases) (simp_all add: endsWith_def js_slash)

lemma endsWith_two_slashes: "endsWith a (js ''//'') \<longleftrightarrow> (\<exists>b. a = b @ [0x2F, 0x2F])"
proof
  assume "endsWith a (js ''//'')"
  then have "drop (length a - 2) a = [0x2F, 0x2F]"
    by (simp add: endsWith_def js_def numeral_2_eq_2)
  then have "a = take (length a - 2) a @ [0x2F, 0x2F]"
    by (metis append_take_drop_id)
  then show "\<exists>b. a = b @ [0x2F, 0x2F]" ..
next
  assume "\<exists>b. a = b @ [0x2F, 0x2F]"
  then show "endsWith a (js ''//'')"
    by (auto simp: endsWith_def js_def)
qed

lemma getBaseUrl_string:
  assumes "get params (js ''address'') = JStr a \<or>
           (\<not> truthy (get params (js ''address'')) \<and>
            get_prop_opt (or_else (environment context) (JObj [])) (js ''ADDRESS'') = JStr a)"
    and "a \<noteq> []"
  shows "getBaseUrl params context = Inr (if endsWith a (js ''/'') then butlast a else a)"
  using assms by (auto simp: getBaseUrl_def Let_def butlast_conv_take)

lemma getBaseUrl_missing:
  assumes "\<not> truthy (get params (js ''address''))"
    and "\<not> truthy (get_prop_opt (or_else (environment context) (JObj [])) (js ''ADDRESS''))"
  shows "getBaseUrl params context =
     Inl (Error (js ''No URL specified. Provide address parameter or ADDRESS environment variable''))"
  using assms by (simp add: getBaseUrl_def Let_def)

lemma stripped_ends_with_slash:
  "endsWith (if endsWith a (js ''/'') then butlast a else a) (js ''/'') \<longleftrightarrow> endsWith a (js ''//'')"
proof (cases a rule: rev_cases)
  case Nil
  then show ?thesis by (simp add: endsWith_slash endsWith_two_slashes)
next
  case (snoc ys y)
  show ?thesis
  proof (cases ys rule: rev_cases)
    case Nil
    with snoc show ?thesis by (simp add: endsWith_slash endsWith_two_slashes)
  next
    case (snoc zs z)
    with \<open>a = ys @ [y]\<close> show ?thesis
      by (auto simp add: endsWith_slash endsWith_two_slashes butlast_append)
  qed
qed

text \<open>
  Claim C6, as the code has it. The address is the \<open>address\<close> parameter when that is
  truthy and the \<open>ADDRESS\<close> environment variable otherwise. For an address that is a
  non-empty string, resolution returns it with one trailing slash removed if it has one, so
  the result still ends with a slash exactly when the address ended with two. When neither
  the parameter nor the variable is set, resolution fails with the error
  \<open>No URL specified. Provide address parameter or ADDRESS environment variable\<close>.
\<close>

theorem getBaseUrl_removes_one_trailing_slash:
  "((get params (js ''address'') = JStr a \<or>
      (\<not> truthy (get params (js ''address'')) \<and>
       get_prop_opt (or_else (environment context) (JObj [])) (js ''ADDRESS'') = JStr a)) \<and>
     a \<noteq> [] \<longrightarrow>
     getBaseUrl params context = Inr (if endsWith a (js ''/'') then butlast a else a) \<and>
     (endsWith (if endsWith a (js ''/'') then butlast a else a) (js ''/'')
        \<longleftrightarrow> endsWith a (js ''//''))) \<and>
   (\<not> truthy (get params (js ''address'')) \<and>
    \<not> truthy (get_prop_opt (or_else (environment context) (JObj [])) (js ''ADDRESS'')) \<longrightarrow>
     getBaseUrl params context =
       Inl (Error (js ''No URL specified. Provide address parameter or ADDRESS environment variable'')))"
  using getBaseUrl_string [of params a "context"] getBaseUrl_missing [of params "context"]
    stripped_ends_with_slash [of a]
  by blast

text \<open>
  The theorem at an address parameter with a trailing slash, at an \<open>ADDRESS\<close> variable
  without one, and at a job with neither.
\<close>

theorem getBaseUrl_removes_one_trailing_slash_witness:
  "getBaseUrl [(js ''address'', JStr (js ''https://example.okta.com/''))]
     \<lparr> environment = JUndefined, secrets = JUndefined, data = JUndefined \<rparr>
     = Inr (js ''https://example.okta.com'') \<and>
   getBaseUrl []
     \<lparr> environment = JObj [(js ''ADDRESS'', JStr (js ''https://dev-12345.okta.com''))],
       secrets = JUndefined, data = JUndefined \<rparr>
     = Inr (js ''https://dev-12345.okta.com'') \<and>
   getBaseUrl [] \<lparr> environment = JUndefined, secrets = JUndefined, data = JUndefined \<rparr>
     = Inl (Error (js ''No URL specified. Provide address parameter or ADDRESS environment variable''))"
proof -
  let ?none = "\<lparr> environment = JUndefined, secrets = JUndefined, data = JUndefined \<rparr>"
  let ?p = "[(js ''address'', JStr (js ''https://example.okta.com/''))]"
  let ?env = "\<lparr> environment = JObj [(js ''ADDRESS'', JStr (js ''https://dev-12345.okta.com''))],
                secrets = JUndefined, data = JUndefined \<rparr>"
  have supplied: "get ?p (js ''address'') = JStr (js ''https://example.okta.com/'')"
    and nonempty: "js ''https://example.okta.com/'' \<noteq> []"
    and stripped: "(if endsWith (js ''https://example.okta.com/'') (js ''/'')
                    then butlast (js ''https://example.okta.com/'')
                    else js ''https://example.okta.com/'') = js ''https://example.okta.com''"
    by code_simp+
  have defaulted: "\<not> truthy (get [] (js ''address'')) \<and>
      get_prop_opt (or_else (environment ?env) (JObj [])) (js ''ADDRESS'')
        = JStr (js ''https://dev-12345.okta.com'')"
    and nonempty': "js ''https://dev-12345.okta.com'' \<noteq> []"
    and kept: "(if endsWith (js ''https://dev-12345.okta.com'') (js ''/'')
                then butlast (js ''https://dev-12345.okta.com'')
                else js ''https://dev-12345.okta.com'') = js ''https://dev-12345.okta.com''"
    by code_simp+
  have unset: "\<not> truthy (get [] (js ''address'')) \<and>
      \<not> truthy (get_prop_opt (or_else (environment ?none) (JObj [])) (js ''ADDRESS''))"
    by code_simp
  have "getBaseUrl ?p ?none = Inr (js ''https://example.okta.com'')"
    using getBaseUrl_removes_one_trailing_slash
            [of ?p "js ''https://example.okta.com/''" ?none] supplied nonempty stripped
    by simp
  moreover have "getBaseUrl [] ?env = Inr (js ''https://dev-12345.okta.com'')"
    using getBaseUrl_removes_one_trailing_slash
            [of "[]" "js ''https://dev-12345.okta.com''" ?env] defaulted nonempty' kept
    by simp
  moreover have "getBaseUrl [] ?none =
      Inl (Error (js ''No URL specified. Provide address parameter or ADDRESS environment variable''))"
    using getBaseUrl_removes_one_trailing_slash [of "[]" "[]" ?none] unset
    by blast
  ultimately show ?thesis by blast
qed

text \<open>
  Claim C6 as stated says that the resolved base URL never ends with a slash. An address
  with two trailing slashes resolves to a URL that ends with one.
\<close>

theorem getBaseUrl_trailing_slash_counterexample:
  "getBaseUrl [(js ''address'', JStr (js ''https://example.okta.com//''))]
     \<lparr> environment = JUndefined, secrets = JUndefined, data = JUndefined \<rparr>
     = Inr (js ''https://example.okta.com/'') \<and>
   endsWith (js ''https://example.okta.com/'') (js ''/'')"
  by code_simp

section \<open>The authorization header\<close>









section \<open>String conversion and template literals\<close>

lemma convertible_iff: "convertible v \<longleftrightarrow> (\<exists>s. to_string v = Inr s)"
  by (cases "to_string v") (simp_all add: convertible_def)

lemma convertible_values:
  "convertible JUndefined" "convertible JNull" "convertible (JBool b)" "convertible (JNum n)"
  "convertible (JStr s)" "convertible (JErr name message statusCode)"
  "map_of properties (js ''toString'') = None \<Longrightarrow> convertible (JObj properties)"
  by (simp_all add: convertible_def)

lemma template_one:
  "template [Inr a, x] = (case x of Inl e \<Rightarrow> Inl e | Inr sx \<Rightarrow> Inr (a @ sx))"
  by (simp add: template_def split: sum.splits)

lemma template_two:
  "template [Inr a, x, Inr b, y] =
     (case x of Inl e \<Rightarrow> Inl e
      | Inr sx \<Rightarrow> (case y of Inl e \<Rightarrow> Inl e | Inr sy \<Rightarrow> Inr (a @ sx @ b @ sy)))"
  by (cases x; cases y) (simp_all add: template_def)

lemma template_three:
  "template [Inr a, x, Inr b, y, Inr c, z] =
     (case x of Inl e \<Rightarrow> Inl e
      | Inr sx \<Rightarrow> (case y of Inl e \<Rightarrow> Inl e
      | Inr sy \<Rightarrow> (case z of Inl e \<Rightarrow> Inl e | Inr sz \<Rightarrow> Inr (a @ sx @ b @ sy @ c @ sz))))"
  by (cases x; cases y; cases z) (simp_all add: template_def)

section \<open>The halt and error handlers\<close>

text \<open>
  Claim C8, as the code has it. For every parameter object whose \<open>reason\<close>, \<open>userId\<close>
  and \<open>groupId\<close> are convertible (every string, number, boolean, \<open>null\<close> and absent
  field is), \<open>halt\<close> returns: its record has \<open>userId\<close> and \<open>groupId\<close> equal to
  \<open>unknown\<close> when the parameter is absent (and when it is present but falsy), the
  parameter otherwise; \<open>reason\<close> as supplied; the clock's timestamp as \<open>haltedAt\<close>;
  and \<open>cleanupCompleted\<close> true.
\<close>

theorem halt_returns_for_convertible_values:
  assumes "convertible (get params (js ''reason''))"
    and "convertible (get params (js ''userId''))"
    and "convertible (get params (js ''groupId''))"
  shows "fst (halt w params context) =
     Inr (JObj [(js ''userId'',
                 (case map_of params (js ''userId'') of
                    None \<Rightarrow> JStr (js ''unknown'')
                  | Some v \<Rightarrow> if truthy v then v else JStr (js ''unknown''))),
                (js ''groupId'',
                 (case map_of params (js ''groupId'') of
                    None \<Rightarrow> JStr (js ''unknown'')
                  | Some v \<Rightarrow> if truthy v then v else JStr (js ''unknown''))),
                (js ''reason'', get params (js ''reason'')),
                (js ''haltedAt'', JStr (now w)),
                (js ''cleanupCompleted'', JBool True)])"
proof -
  from assms obtain r u g where
    "to_string (get params (js ''reason'')) = Inr r"
    "to_string (get params (js ''userId'')) = Inr u"
    "to_string (get params (js ''groupId'')) = Inr g"
    by (auto simp: convertible_iff)
  then have "fst (halt w params context) =
     Inr (JObj [(js ''userId'', or_else (get params (js ''userId'')) (JStr (js ''unknown''))),
                (js ''groupId'', or_else (get params (js ''groupId'')) (JStr (js ''unknown''))),
                (js ''reason'', get params (js ''reason'')),
                (js ''haltedAt'', JStr (now w)),
                (js ''cleanupCompleted'', JBool True)])"
    by (simp add: halt_def Let_def template_three)
  then show ?thesis
    by (simp add: get_def or_else_def split: option.splits)
qed

theorem halt_returns_for_convertible_values_witness:
  "fst (halt (mockWorld noContent) [(js ''reason'', JStr (js ''system_shutdown''))] mockContext) =
     Inr (JObj [(js ''userId'', JStr (js ''unknown'')),
                (js ''groupId'', JStr (js ''unknown'')),
                (js ''reason'', JStr (js ''system_shutdown'')),
                (js ''haltedAt'', JStr (js ''2024-01-15T10:30:00.000Z'')),
                (js ''cleanupCompleted'', JBool True)])"
proof -
  let ?params = "[(js ''reason'', JStr (js ''system_shutdown''))]"
  have conv: "convertible (get ?params (js ''reason''))" "convertible (get ?params (js ''userId''))"
      "convertible (get ?params (js ''groupId''))"
    and absent: "map_of ?params (js ''userId'') = None" "map_of ?params (js ''groupId'') = None"
    and reason: "get ?params (js ''reason'') = JStr (js ''system_shutdown'')"
    and clock: "now (mockWorld noContent) = js ''2024-01-15T10:30:00.000Z''"
    by code_simp+
  show ?thesis
    using halt_returns_for_convertible_values [OF conv, of "mockWorld noContent" mockContext]
    by (simp only: absent reason clock option.case)
qed

text \<open>
  Claim C8 as stated lets \<open>halt\<close> return for every input. Its log line is built before
  the record, and a \<open>userId\<close> that cannot be converted to a string makes that throw.
\<close>

theorem halt_unconvertible_userId_counterexample:
  "halt (mockWorld noContent)
     [(js ''userId'', unconvertible), (js ''reason'', JStr (js ''timeout''))] mockContext =
     (Inl (TypeError (js ''Cannot convert object to primitive value'')), [])"
  by code_simp




section \<open>Percent-encoding\<close>

lemma unreserved_not_surrogate: "unreserved c \<Longrightarrow> \<not> is_lead c \<and> \<not> is_trail c"
  by (auto simp: unreserved_def js_def is_lead_def is_trail_def)

lemma unreserved_not_slash: "\<not> unreserved 0x2F"
  by (simp add: unreserved_def js_def)

lemma hex_digit_unreserved: "unreserved (hex_digit d)"
proof -
  have "hex_digit d \<in> set (js ''0123456789ABCDEF'')"
    unfolding hex_digit_def by (rule nth_mem) (simp add: js_def)
  moreover have "\<forall>c \<in> set (js ''0123456789ABCDEF''). unreserved c"
    by (simp add: unreserved_def js_def)
  ultimately show ?thesis by blast
qed

lemma percent_chars: "c \<in> set (percent b) \<Longrightarrow> unreserved c \<or> c = 0x25"
  by (auto simp: percent_def hex_digit_unreserved)

lemma Encode_chars:
  "Encode s = Inr r \<Longrightarrow> c \<in> set r \<Longrightarrow> unreserved c \<or> c = 0x25"
proof (induction s arbitrary: r rule: Encode.induct)
  case 1
  then show ?case by simp
next
  case (2 c' cs)
  then show ?case
    by (auto split: if_splits sum.splits list.splits dest: percent_chars)
qed

lemma Encode_no_slash: "Encode s = Inr r \<Longrightarrow> 0x2F \<notin> set r"
  using Encode_chars [of s r "0x2F"] unreserved_not_slash by auto

lemma Encode_well_formed: "(\<exists>r. Encode s = Inr r) \<longleftrightarrow> well_formed s"
proof (induction s rule: well_formed.induct)
  case 1
  then show ?case by simp
next
  case (2 c cs)
  show ?case
  proof (cases "is_lead c")
    case True
    then have nu: "\<not> unreserved c" using unreserved_not_surrogate by blast
    show ?thesis
    proof (cases cs)
      case Nil
      with True nu show ?thesis by simp
    next
      case (Cons d ds)
      show ?thesis
      proof (cases "is_trail d")
        case False
        with True nu Cons show ?thesis by simp
      next
        case trail: True
        from 2(1) [OF True Cons] have "(\<exists>r. Encode ds = Inr r) \<longleftrightarrow> well_formed ds" .
        with True nu Cons trail show ?thesis
          by (cases "Encode ds") simp_all
      qed
    qed
  next
    case False
    from 2(2) [OF False] have ih: "(\<exists>r. Encode cs = Inr r) \<longleftrightarrow> well_formed cs" .
    show ?thesis
    proof (cases "unreserved c")
      case True
      then have "\<not> is_trail c" using unreserved_not_surrogate by blast
      with True False ih show ?thesis by (cases "Encode cs") simp_all
    next
      case nu: False
      with False ih show ?thesis by (cases "Encode cs") simp_all
    qed
  qed
qed

lemma split_on_none: "sep \<notin> set xs \<Longrightarrow> split_on sep xs = [xs]"
  by (induction xs) auto

lemma split_on_append: "sep \<notin> set xs \<Longrightarrow> split_on sep (xs @ sep # ys) = xs # split_on sep ys"
  by (induction xs) auto

lemma path_segments:
  assumes "0x2F \<notin> set encodedGroupId" and "0x2F \<notin> set encodedUserId"
  shows "split_on 0x2F (js ''/api/v1/groups/'' @ encodedGroupId @ js ''/users/'' @ encodedUserId) =
           [[], js ''api'', js ''v1'', js ''groups'', encodedGroupId, js ''users'', encodedUserId]"
proof -
  have shape: "js ''/api/v1/groups/'' @ encodedGroupId @ js ''/users/'' @ encodedUserId =
      [] @ 0x2F # js ''api'' @ 0x2F # js ''v1'' @ 0x2F # js ''groups'' @ 0x2F #
      encodedGroupId @ 0x2F # js ''users'' @ 0x2F # encodedUserId"
    by (simp add: js_def)
  have literal: "0x2F \<notin> set (js ''api'')" "0x2F \<notin> set (js ''v1'')"
      "0x2F \<notin> set (js ''groups'')" "0x2F \<notin> set (js ''users'')"
    by (simp_all add: js_def)
  show ?thesis
    unfolding shape
    by (simp only: split_on_append split_on_none literal assms set_simps empty_iff not_False_eq_True)
qed

section \<open>What a run of \<open>invoke\<close> sends and returns\<close>

lemma getAuthorizationHeader_no_fetch:
  "Fetch req \<notin> set (snd (getAuthorizationHeader w context))"
  by (auto simp: getAuthorizationHeader_def Let_def split: option.splits sum.splits prod.splits)

lemma getAuthorizationHeader_fetches:
  "fetches (snd (getAuthorizationHeader w context)) = []"
  by (auto simp: getAuthorizationHeader_def fetches_def Let_def split: option.splits sum.splits prod.splits)

lemma unassignUserFromGroup_sent:
  assumes "Fetch req \<in> set (snd (unassignUserFromGroup w userId groupId baseUrl header))"
  shows "\<exists>encodedUserId encodedGroupId.
           encodeURIComponent userId = Inr encodedUserId \<and>
           encodeURIComponent groupId = Inr encodedGroupId \<and>
           req = \<lparr> url = baseUrl @ js ''/api/v1/groups/'' @ encodedGroupId
                           @ js ''/users/'' @ encodedUserId,
                   http_method = js ''DELETE'',
                   headers = [(js ''Authorization'', header),
                              (js ''Accept'', js ''application/json''),
                              (js ''Content-Type'', js ''application/json'')] \<rparr> \<and>
           unassignUserFromGroup w userId groupId baseUrl header = (fetch w req, [Fetch req])"
  using assms by (auto simp: unassignUserFromGroup_def Let_def split: sum.splits)

lemma unassignUserFromGroup_sends:
  assumes "encodeURIComponent userId = Inr encodedUserId"
    and "encodeURIComponent groupId = Inr encodedGroupId"
  shows "snd (unassignUserFromGroup w userId groupId baseUrl header) =
           [Fetch \<lparr> url = baseUrl @ js ''/api/v1/groups/'' @ encodedGroupId
                           @ js ''/users/'' @ encodedUserId,
                   http_method = js ''DELETE'',
                   headers = [(js ''Authorization'', header),
                              (js ''Accept'', js ''application/json''),
                              (js ''Content-Type'', js ''application/json'')] \<rparr>]"
  using assms by (simp add: unassignUserFromGroup_def Let_def)

lemma encodeURIComponent_convertible:
  "encodeURIComponent v = Inr encoded \<Longrightarrow> convertible v"
  by (cases "to_string v") (simp_all add: encodeURIComponent_def convertible_def)

text \<open>The run of \<open>invoke\<close> once the parameters are resolved and the first line is built.\<close>

lemma invoke_started:
  assumes res: "resolveJSONPathTemplates w params (or_else (data context) (JObj [])) = (rp, errs)"
    and u: "to_string (get rp (js ''userId'')) = Inr userText"
    and g: "to_string (get rp (js ''groupId'')) = Inr groupText"
  shows "invoke w params context =
     (let warned = (if length errs > 0
                    then [ConsoleWarn [JStr (js ''Template resolution errors:''), JArr errs]]
                    else []);
          started = warned @ [ConsoleLog [JStr (js ''Starting Okta user group removal: user '' @ userText
                                               @ js '' from group '' @ groupText)]]
      in case getBaseUrl rp context of
           Inl e \<Rightarrow> (Inl e, started)
         | Inr baseUrl \<Rightarrow>
      (case getAuthorizationHeader w context of
           (Inl e, exchanged) \<Rightarrow> (Inl e, started @ exchanged)
         | (Inr resolved, exchanged) \<Rightarrow>
      (case unassignUserFromGroup w (get rp (js ''userId'')) (get rp (js ''groupId'')) baseUrl
              (authHeader resolved) of
           (Inl e, sent) \<Rightarrow> (Inl e, started @ exchanged @ sent)
         | (Inr response, sent) \<Rightarrow>
             if ok response then
               (Inr (JObj [(js ''userId'', get rp (js ''userId'')),
                           (js ''groupId'', get rp (js ''groupId'')),
                           (js ''removed'', JBool True),
                           (js ''address'', JStr baseUrl),
                           (js ''removedAt'', JStr (now w))]),
                started @ exchanged @ sent @
                  [ConsoleLog [JStr (js ''Successfully removed user '' @ userText
                                     @ js '' from group '' @ groupText)]])
             else
               (Inl (JErr (js ''Error'')
                      (case json response of
                         Inl e \<Rightarrow> js ''Failed to remove user from group: HTTP ''
                                  @ number_to_string (status response)
                       | Inr errorBody \<Rightarrow>
                           (case get_prop errorBody (js ''errorSummary'') of
                              Inl e \<Rightarrow> js ''Failed to remove user from group: HTTP ''
                                       @ number_to_string (status response)
                            | Inr errorSummary \<Rightarrow>
                                if truthy errorSummary then
                                  (case to_string errorSummary of
                                     Inl e \<Rightarrow> js ''Failed to remove user from group: HTTP ''
                                              @ number_to_string (status response)
                                   | Inr summary \<Rightarrow> js ''Failed to remove user from group: '' @ summary)
                                else js ''Failed to remove user from group: HTTP ''
                                     @ number_to_string (status response)))
                      (Some (status response))),
                started @ exchanged @ sent @
                  (case json response of
                     Inl e \<Rightarrow> [ConsoleError [JStr (js ''Failed to parse error response'')]]
                   | Inr errorBody \<Rightarrow>
                       (case get_prop errorBody (js ''errorSummary'') of
                          Inl e \<Rightarrow> [ConsoleError [JStr (js ''Failed to parse error response'')]]
                        | Inr errorSummary \<Rightarrow>
                            if truthy errorSummary \<and> \<not> convertible errorSummary
                            then [ConsoleError [JStr (js ''Failed to parse error response'')]]
                            else [ConsoleError [JStr (js ''Okta API error response:''), errorBody]]))))))"
  by (simp add: invoke_def Let_def res u g template_two template_one convertible_def
           split: sum.splits prod.splits)

lemma resolved_params:
  obtains errs where
    "resolveJSONPathTemplates w params (or_else (data context) (JObj [])) =
       (resolvedParams w params context, errs)"
  by (cases "resolveJSONPathTemplates w params (or_else (data context) (JObj []))")
     (simp add: resolvedParams_def)

lemma fetches_nonempty: "Fetch r \<in> set evs \<Longrightarrow> fetches evs \<noteq> []"
  by (induction evs) (auto simp: fetches_def)

lemma invoke_not_started:
  assumes "\<not> convertible (get (resolvedParams w params context) (js ''userId'')) \<or>
           \<not> convertible (get (resolvedParams w params context) (js ''groupId''))"
  shows "(\<exists>e. fst (invoke w params context) = Inl e) \<and> fetches (snd (invoke w params context)) = []"
proof -
  obtain errs where res:
    "resolveJSONPathTemplates w params (or_else (data context) (JObj [])) =
       (resolvedParams w params context, errs)"
    by (rule resolved_params)
  from assms show ?thesis
    by (cases "to_string (get (resolvedParams w params context) (js ''userId''))";
        cases "to_string (get (resolvedParams w params context) (js ''groupId''))")
       (simp_all add: invoke_def Let_def res template_two convertible_def fetches_def)
qed

lemma invoke_fetchD:
  assumes "Fetch req \<in> set (snd (invoke w params context))"
  shows "\<exists>baseUrl resolved exchanged.
           convertible (get (resolvedParams w params context) (js ''userId'')) \<and>
           convertible (get (resolvedParams w params context) (js ''groupId'')) \<and>
           getBaseUrl (resolvedParams w params context) context = Inr baseUrl \<and>
           getAuthorizationHeader w context = (Inr resolved, exchanged) \<and>
           Fetch req \<in> set (snd (unassignUserFromGroup w
              (get (resolvedParams w params context) (js ''userId''))
              (get (resolvedParams w params context) (js ''groupId''))
              baseUrl (authHeader resolved)))"
proof -
  obtain errs where res:
    "resolveJSONPathTemplates w params (or_else (data context) (JObj [])) =
       (resolvedParams w params context, errs)"
    by (rule resolved_params)
  have sent: "fetches (snd (invoke w params context)) \<noteq> []"
    using assms by (rule fetches_nonempty)
  with invoke_not_started [of w params "context"]
  have conv: "convertible (get (resolvedParams w params context) (js ''userId''))"
      "convertible (get (resolvedParams w params context) (js ''groupId''))"
    by blast+
  then obtain userText groupText where
    u: "to_string (get (resolvedParams w params context) (js ''userId'')) = Inr userText"
    and g: "to_string (get (resolvedParams w params context) (js ''groupId'')) = Inr groupText"
    by (auto simp: convertible_iff)
  from assms getAuthorizationHeader_no_fetch [of req w "context"] conv show ?thesis
    unfolding invoke_started [OF res u g]
    by (auto simp: Let_def split: prod.splits sum.splits if_splits)
qed

lemma invoke_after_request:
  assumes "getBaseUrl (resolvedParams w params context) context = Inr baseUrl"
    and "getAuthorizationHeader w context = (Inr resolved, exchanged)"
    and "unassignUserFromGroup w
              (get (resolvedParams w params context) (js ''userId''))
              (get (resolvedParams w params context) (js ''groupId''))
              baseUrl (authHeader resolved) = (Inr response, sent)"
    and "convertible (get (resolvedParams w params context) (js ''userId''))"
    and "convertible (get (resolvedParams w params context) (js ''groupId''))"
  shows "fst (invoke w params context) =
     (if ok response then
        Inr (JObj [(js ''userId'', get (resolvedParams w params context) (js ''userId'')),
                   (js ''groupId'', get (resolvedParams w params context) (js ''groupId'')),
                   (js ''removed'', JBool True),
                   (js ''address'', JStr baseUrl),
                   (js ''removedAt'', JStr (now w))])
      else
        Inl (JErr (js ''Error'')
               (case json response of
                  Inl e \<Rightarrow> js ''Failed to remove user from group: HTTP '' @ number_to_string (status response)
                | Inr errorBody \<Rightarrow>
                    (case get_prop errorBody (js ''errorSummary'') of
                       Inl e \<Rightarrow> js ''Failed to remove user from group: HTTP '' @ number_to_string (status response)
                     | Inr errorSummary \<Rightarrow>
                         if truthy errorSummary then
                           (case to_string errorSummary of
                              Inl e \<Rightarrow> js ''Failed to remove user from group: HTTP ''
                                       @ number_to_string (status response)
                            | Inr summary \<Rightarrow> js ''Failed to remove user from group: '' @ summary)
                         else js ''Failed to remove user from group: HTTP '' @ number_to_string (status response)))
               (Some (status response))))"
proof -
  obtain errs where res:
    "resolveJSONPathTemplates w params (or_else (data context) (JObj [])) =
       (resolvedParams w params context, errs)"
    by (rule resolved_params)
  from assms(4,5) obtain userText groupText where
    u: "to_string (get (resolvedParams w params context) (js ''userId'')) = Inr userText"
    and g: "to_string (get (resolvedParams w params context) (js ''groupId'')) = Inr groupText"
    by (auto simp: convertible_iff)
  show ?thesis
    unfolding invoke_started [OF res u g]
    by (simp add: Let_def assms(1-3))
qed

lemma invoke_response:
  assumes "Fetch req \<in> set (snd (invoke w params context))"
    and "fetch w req = Inr response"
  shows "\<exists>baseUrl.
     getBaseUrl (resolvedParams w params context) context = Inr baseUrl \<and>
     fst (invoke w params context) =
     (if ok response then
        Inr (JObj [(js ''userId'', get (resolvedParams w params context) (js ''userId'')),
                   (js ''groupId'', get (resolvedParams w params context) (js ''groupId'')),
                   (js ''removed'', JBool True),
                   (js ''address'', JStr baseUrl),
                   (js ''removedAt'', JStr (now w))])
      else
        Inl (JErr (js ''Error'')
               (case json response of
                  Inl e \<Rightarrow> js ''Failed to remove user from group: HTTP '' @ number_to_string (status response)
                | Inr errorBody \<Rightarrow>
                    (case get_prop errorBody (js ''errorSummary'') of
                       Inl e \<Rightarrow> js ''Failed to remove user from group: HTTP '' @ number_to_string (status response)
                     | Inr errorSummary \<Rightarrow>
                         if truthy errorSummary then
                           (case to_string errorSummary of
                              Inl e \<Rightarrow> js ''Failed to remove user from group: HTTP ''
                                       @ number_to_string (status response)
                            | Inr summary \<Rightarrow> js ''Failed to remove user from group: '' @ summary)
                         else js ''Failed to remove user from group: HTTP '' @ number_to_string (status response)))
               (Some (status response))))"
proof -
  from invoke_fetchD [OF assms(1)] obtain baseUrl resolved exchanged where
    conv: "convertible (get (resolvedParams w params context) (js ''userId''))"
          "convertible (get (resolvedParams w params context) (js ''groupId''))"
    and base: "getBaseUrl (resolvedParams w params context) context = Inr baseUrl"
    and auth: "getAuthorizationHeader w context = (Inr resolved, exchanged)"
    and sent: "Fetch req \<in> set (snd (unassignUserFromGroup w
              (get (resolvedParams w params context) (js ''userId''))
              (get (resolvedParams w params context) (js ''groupId''))
              baseUrl (authHeader resolved)))"
    by blast
  from unassignUserFromGroup_sent [OF sent] assms(2)
  have "unassignUserFromGroup w
              (get (resolvedParams w params context) (js ''userId''))
              (get (resolvedParams w params context) (js ''groupId''))
              baseUrl (authHeader resolved) = (Inr response, [Fetch req])"
    by auto
  from invoke_after_request [OF base auth this conv] base show ?thesis by blast
qed

lemma invoke_no_address:
  assumes "getBaseUrl (resolvedParams w params context) context = Inl e"
  shows "(\<exists>e. fst (invoke w params context) = Inl e) \<and> fetches (snd (invoke w params context)) = []"
proof (cases "convertible (get (resolvedParams w params context) (js ''userId'')) \<and>
              convertible (get (resolvedParams w params context) (js ''groupId''))")
  case False
  with invoke_not_started [of w params "context"] show ?thesis by blast
next
  case True
  obtain errs where res:
    "resolveJSONPathTemplates w params (or_else (data context) (JObj [])) =
       (resolvedParams w params context, errs)"
    by (rule resolved_params)
  from True obtain userText groupText where
    u: "to_string (get (resolvedParams w params context) (js ''userId'')) = Inr userText"
    and g: "to_string (get (resolvedParams w params context) (js ''groupId'')) = Inr groupText"
    by (auto simp: convertible_iff)
  show ?thesis
    unfolding invoke_started [OF res u g]
    by (simp add: Let_def assms fetches_def)
qed

lemma not_configured:
  assumes "\<not> credentials_configured context"
  shows "getAuthorizationHeader w context = (Inl (Error (js ''No authentication configured'')), [])"
  using assms
  by (auto simp: credentials_configured_def getAuthorizationHeader_def Let_def split: option.splits)

lemma invoke_no_credentials:
  assumes "getBaseUrl (resolvedParams w params context) context = Inr baseUrl"
    and "\<not> credentials_configured context"
    and "convertible (get (resolvedParams w params context) (js ''userId''))"
    and "convertible (get (resolvedParams w params context) (js ''groupId''))"
  shows "fst (invoke w params context) = Inl (Error (js ''No authentication configured'')) \<and>
         fetches (snd (invoke w params context)) = []"
proof -
  obtain errs where res:
    "resolveJSONPathTemplates w params (or_else (data context) (JObj [])) =
       (resolvedParams w params context, errs)"
    by (rule resolved_params)
  from assms(3,4) obtain userText groupText where
    u: "to_string (get (resolvedParams w params context) (js ''userId'')) = Inr userText"
    and g: "to_string (get (resolvedParams w params context) (js ''groupId'')) = Inr groupText"
    by (auto simp: convertible_iff)
  show ?thesis
    unfolding invoke_started [OF res u g]
    by (simp add: Let_def assms(1) not_configured [OF assms(2)] fetches_def)
qed

text \<open>
  A run whose base URL and authorization header resolve and whose identifiers can be
  encoded sends exactly this request, with the rewritten header.
\<close>

lemma invoke_sends:
  assumes "getBaseUrl (resolvedParams w params context) context = Inr baseUrl"
    and "getAuthorizationHeader w context = (Inr resolved, exchanged)"
    and "encodeURIComponent (get (resolvedParams w params context) (js ''userId'')) = Inr encodedUserId"
    and "encodeURIComponent (get (resolvedParams w params context) (js ''groupId'')) = Inr encodedGroupId"
  shows "Fetch \<lparr> url = baseUrl @ js ''/api/v1/groups/'' @ encodedGroupId
                        @ js ''/users/'' @ encodedUserId,
                 http_method = js ''DELETE'',
                 headers = [(js ''Authorization'', authHeader resolved),
                            (js ''Accept'', js ''application/json''),
                            (js ''Content-Type'', js ''application/json'')] \<rparr>
           \<in> set (snd (invoke w params context))"
proof -
  obtain errs where res:
    "resolveJSONPathTemplates w params (or_else (data context) (JObj [])) =
       (resolvedParams w params context, errs)"
    by (rule resolved_params)
  from assms(3,4) obtain userText groupText where
    u: "to_string (get (resolvedParams w params context) (js ''userId'')) = Inr userText"
    and g: "to_string (get (resolvedParams w params context) (js ''groupId'')) = Inr groupText"
    using encodeURIComponent_convertible by (auto simp: convertible_iff) blast
  show ?thesis
    unfolding invoke_started [OF res u g]
    by (simp add: unassignUserFromGroup_def Let_def assms split: sum.splits)
qed

lemma invoke_sends_rewritten_header:
  assumes "Fetch req \<in> set (snd (invoke w params context))"
  shows "\<exists>resolved exchanged.
           getAuthorizationHeader w context = (Inr resolved, exchanged) \<and>
           map_of (headers req) (js ''Authorization'') = Some (authHeader resolved)"
proof -
  from invoke_fetchD [OF assms] obtain baseUrl resolved exchanged where
    auth: "getAuthorizationHeader w context = (Inr resolved, exchanged)"
    and sent: "Fetch req \<in> set (snd (unassignUserFromGroup w
              (get (resolvedParams w params context) (js ''userId''))
              (get (resolvedParams w params context) (js ''groupId''))
              baseUrl (authHeader resolved)))"
    by blast
  from unassignUserFromGroup_sent [OF sent]
  have "map_of (headers req) (js ''Authorization'') = Some (authHeader resolved)"
    by auto
  with auth show ?thesis by blast
qed

text \<open>
  Claim C7. Every request \<open>invoke\<close> sends goes to the resolved base URL followed by
  \<open>/api/v1/groups/\<close>, the percent-encoding of the group identifier, \<open>/users/\<close> and the
  percent-encoding of the user identifier; the two encodings are made separately and
  contain no slash, so the path has exactly the segments \<open>api\<close>, \<open>v1\<close>, \<open>groups\<close>,
  the encoded group, \<open>users\<close>, the encoded user. The request helper sends such a request
  for every pair of identifiers whose string conversions exist and are well formed (on an
  unpaired surrogate \<open>encodeURIComponent\<close> raises a URIError and nothing is sent).
\<close>

theorem request_url_encodes_identifiers_independently:
  "(\<forall>req. Fetch req \<in> set (snd (invoke w params context)) \<longrightarrow>
      (\<exists>baseUrl encodedGroupId encodedUserId.
         getBaseUrl (resolvedParams w params context) context = Inr baseUrl \<and>
         encodeURIComponent (get (resolvedParams w params context) (js ''groupId'')) = Inr encodedGroupId \<and>
         encodeURIComponent (get (resolvedParams w params context) (js ''userId'')) = Inr encodedUserId \<and>
         url req = baseUrl @ js ''/api/v1/groups/'' @ encodedGroupId @ js ''/users/'' @ encodedUserId \<and>
         split_on 0x2F (js ''/api/v1/groups/'' @ encodedGroupId @ js ''/users/'' @ encodedUserId) =
           [[], js ''api'', js ''v1'', js ''groups'', encodedGroupId, js ''users'', encodedUserId])) \<and>
   (\<forall>userText groupText.
      to_string userId = Inr userText \<and> well_formed userText \<and>
      to_string groupId = Inr groupText \<and> well_formed groupText \<longrightarrow>
      (\<exists>encodedGroupId encodedUserId.
         encodeURIComponent groupId = Inr encodedGroupId \<and>
         encodeURIComponent userId = Inr encodedUserId \<and>
         snd (unassignUserFromGroup w userId groupId base header) =
           [Fetch \<lparr> url = base @ js ''/api/v1/groups/'' @ encodedGroupId
                           @ js ''/users/'' @ encodedUserId,
                    http_method = js ''DELETE'',
                    headers = [(js ''Authorization'', header),
                               (js ''Accept'', js ''application/json''),
                               (js ''Content-Type'', js ''application/json'')] \<rparr>]))"
proof (intro conjI allI impI)
  fix req
  assume "Fetch req \<in> set (snd (invoke w params context))"
  from invoke_fetchD [OF this] obtain baseUrl resolved exchanged where
    base: "getBaseUrl (resolvedParams w params context) context = Inr baseUrl"
    and sent: "Fetch req \<in> set (snd (unassignUserFromGroup w
              (get (resolvedParams w params context) (js ''userId''))
              (get (resolvedParams w params context) (js ''groupId''))
              baseUrl (authHeader resolved)))"
    by blast
  from unassignUserFromGroup_sent [OF sent] obtain encodedUserId encodedGroupId where
    eu: "encodeURIComponent (get (resolvedParams w params context) (js ''userId'')) = Inr encodedUserId"
    and eg: "encodeURIComponent (get (resolvedParams w params context) (js ''groupId'')) = Inr encodedGroupId"
    and req: "url req = baseUrl @ js ''/api/v1/groups/'' @ encodedGroupId @ js ''/users/'' @ encodedUserId"
    by auto
  from eu eg have "0x2F \<notin> set encodedUserId" "0x2F \<notin> set encodedGroupId"
    by (auto simp: encodeURIComponent_def split: sum.splits dest: Encode_no_slash)
  from path_segments [OF this(2,1)] base eu eg req
  show "\<exists>baseUrl encodedGroupId encodedUserId.
         getBaseUrl (resolvedParams w params context) context = Inr baseUrl \<and>
         encodeURIComponent (get (resolvedParams w params context) (js ''groupId'')) = Inr encodedGroupId \<and>
         encodeURIComponent (get (resolvedParams w params context) (js ''userId'')) = Inr encodedUserId \<and>
         url req = baseUrl @ js ''/api/v1/groups/'' @ encodedGroupId @ js ''/users/'' @ encodedUserId \<and>
         split_on 0x2F (js ''/api/v1/groups/'' @ encodedGroupId @ js ''/users/'' @ encodedUserId) =
           [[], js ''api'', js ''v1'', js ''groups'', encodedGroupId, js ''users'', encodedUserId]"
    by blast
next
  fix userText groupText
  assume "to_string userId = Inr userText \<and> well_formed userText \<and>
          to_string groupId = Inr groupText \<and> well_formed groupText"
  then obtain encodedUserId encodedGroupId where
    "encodeURIComponent userId = Inr encodedUserId" "encodeURIComponent groupId = Inr encodedGroupId"
    using Encode_well_formed [of userText] Encode_well_formed [of groupText]
    by (auto simp: encodeURIComponent_def)
  with unassignUserFromGroup_sends [OF this, of w base header]
  show "\<exists>encodedGroupId encodedUserId.
         encodeURIComponent groupId = Inr encodedGroupId \<and>
         encodeURIComponent userId = Inr encodedUserId \<and>
         snd (unassignUserFromGroup w userId groupId base header) =
           [Fetch \<lparr> url = base @ js ''/api/v1/groups/'' @ encodedGroupId
                           @ js ''/users/'' @ encodedUserId,
                    http_method = js ''DELETE'',
                    headers = [(js ''Authorization'', header),
                               (js ''Accept'', js ''application/json''),
                               (js ''Content-Type'', js ''application/json'')] \<rparr>]"
    by blast
qed

theorem request_url_encodes_identifiers_independently_witness:
  "split_on 0x2F (js ''/api/v1/groups/'' @ js ''g%2F..%2Fadmin'' @ js ''/users/'' @ js ''a%2Fb%20c'') =
     [[], js ''api'', js ''v1'', js ''groups'', js ''g%2F..%2Fadmin'', js ''users'', js ''a%2Fb%20c''] \<and>
   snd (unassignUserFromGroup (mockWorld noContent) (JStr (js ''a/b c'')) (JStr (js ''g/../admin''))
          (js ''https://example.okta.com'') (js ''SSWS test-okta-token-123456'')) =
     [Fetch reservedRequest]"
proof -
  let ?w = "mockWorld noContent"
  have sent: "Fetch reservedRequest \<in> set (snd (invoke ?w reservedParams mockContext))"
    by code_simp
  have eg: "encodeURIComponent (get (resolvedParams ?w reservedParams mockContext) (js ''groupId''))
              = Inr (js ''g%2F..%2Fadmin'')"
    and eu: "encodeURIComponent (get (resolvedParams ?w reservedParams mockContext) (js ''userId''))
              = Inr (js ''a%2Fb%20c'')"
    by code_simp+
  have eg': "encodeURIComponent (JStr (js ''g/../admin'')) = Inr (js ''g%2F..%2Fadmin'')"
    and eu': "encodeURIComponent (JStr (js ''a/b c'')) = Inr (js ''a%2Fb%20c'')"
    and wf: "to_string (JStr (js ''a/b c'')) = Inr (js ''a/b c'')" "well_formed (js ''a/b c'')"
          "to_string (JStr (js ''g/../admin'')) = Inr (js ''g/../admin'')"
          "well_formed (js ''g/../admin'')"
    by code_simp+
  have request: "\<lparr> url = js ''https://example.okta.com'' @ js ''/api/v1/groups/'' @ js ''g%2F..%2Fadmin''
                           @ js ''/users/'' @ js ''a%2Fb%20c'',
                    http_method = js ''DELETE'',
                    headers = [(js ''Authorization'', js ''SSWS test-okta-token-123456''),
                               (js ''Accept'', js ''application/json''),
                               (js ''Content-Type'', js ''application/json'')] \<rparr> = reservedRequest"
    by code_simp
  note inst = request_url_encodes_identifiers_independently
            [of ?w reservedParams mockContext "JStr (js ''a/b c'')" "JStr (js ''g/../admin'')"
                "js ''https://example.okta.com''" "js ''SSWS test-okta-token-123456''"]
  from inst sent eg eu
  have "split_on 0x2F (js ''/api/v1/groups/'' @ js ''g%2F..%2Fadmin'' @ js ''/users/'' @ js ''a%2Fb%20c'') =
     [[], js ''api'', js ''v1'', js ''groups'', js ''g%2F..%2Fadmin'', js ''users'', js ''a%2Fb%20c'']"
    by auto
  moreover from inst wf eg' eu' request
  have "snd (unassignUserFromGroup ?w (JStr (js ''a/b c'')) (JStr (js ''g/../admin''))
          (js ''https://example.okta.com'') (js ''SSWS test-okta-token-123456'')) =
     [Fetch reservedRequest]"
    by auto
  ultimately show ?thesis by blast
qed

text \<open>
  Claim C2. Whenever the request of a run got a response in the success range, \<open>invoke\<close>
  returns the record with the user and group identifiers of the resolved parameters,
  \<open>removed\<close> true, the resolved base URL as \<open>address\<close> and the clock's timestamp as
  \<open>removedAt\<close>.
\<close>

theorem invoke_success_record:
  assumes "Fetch req \<in> set (snd (invoke w params context))"
    and "fetch w req = Inr response"
    and "ok response"
  shows "\<exists>baseUrl.
           getBaseUrl (resolvedParams w params context) context = Inr baseUrl \<and>
           fst (invoke w params context) =
             Inr (JObj [(js ''userId'', get (resolvedParams w params context) (js ''userId'')),
                        (js ''groupId'', get (resolvedParams w params context) (js ''groupId'')),
                        (js ''removed'', JBool True),
                        (js ''address'', JStr baseUrl),
                        (js ''removedAt'', JStr (now w))])"
  using invoke_response [OF assms(1,2)] assms(3) by simp

theorem invoke_success_record_witness:
  "getBaseUrl (resolvedParams (mockWorld noContent) mockParams mockContext) mockContext
     = Inr (js ''https://example.okta.com'') \<and>
   fst (invoke (mockWorld noContent) mockParams mockContext) =
     Inr (JObj [(js ''userId'', JStr (js ''user123'')),
                (js ''groupId'', JStr (js ''group456'')),
                (js ''removed'', JBool True),
                (js ''address'', JStr (js ''https://example.okta.com'')),
                (js ''removedAt'', JStr (js ''2024-01-15T10:30:00.000Z''))])"
proof -
  have sent: "Fetch mockRequest \<in> set (snd (invoke (mockWorld noContent) mockParams mockContext))"
    by code_simp
  have answered: "fetch (mockWorld noContent) mockRequest = Inr noContent"
    by (simp add: mockWorld_def)
  have success: "ok noContent"
    by (simp add: noContent_def)
  have base: "getBaseUrl (resolvedParams (mockWorld noContent) mockParams mockContext) mockContext
                = Inr (js ''https://example.okta.com'')"
    and ids: "get (resolvedParams (mockWorld noContent) mockParams mockContext) (js ''userId'')
                = JStr (js ''user123'')"
         "get (resolvedParams (mockWorld noContent) mockParams mockContext) (js ''groupId'')
                = JStr (js ''group456'')"
    and clock: "now (mockWorld noContent) = js ''2024-01-15T10:30:00.000Z''"
    by code_simp+
  from invoke_success_record [OF sent answered success] base ids clock
  show ?thesis by simp
qed

text \<open>
  Claim C3, as the code has it. Whenever the request of a run got a response outside the
  success range, \<open>invoke\<close> throws an Error that carries the response's status code. Its
  message is \<open>Failed to remove user from group: \<close> followed by the summary when the
  body is JSON whose \<open>errorSummary\<close> is a non-empty string (for any truthy summary that
  is convertible: followed by its conversion), and
  \<open>Failed to remove user from group: HTTP <status>\<close> when the body is not JSON, has no
  \<open>errorSummary\<close>, or has one that cannot be converted (the conversion throws inside the
  \<open>try\<close>).
\<close>

theorem invoke_failure_message:
  assumes "Fetch req \<in> set (snd (invoke w params context))"
    and "fetch w req = Inr response"
    and "\<not> ok response"
  shows "\<exists>message.
           fst (invoke w params context) = Inl (JErr (js ''Error'') message (Some (status response))) \<and>
           (\<forall>properties summary.
              json response = Inr (JObj properties) \<and>
              get properties (js ''errorSummary'') = JStr summary \<and> summary \<noteq> [] \<longrightarrow>
              message = js ''Failed to remove user from group: '' @ summary) \<and>
           (\<forall>errorBody errorSummary summary.
              json response = Inr errorBody \<and>
              get_prop errorBody (js ''errorSummary'') = Inr errorSummary \<and> truthy errorSummary \<and>
              to_string errorSummary = Inr summary \<longrightarrow>
              message = js ''Failed to remove user from group: '' @ summary) \<and>
           ((\<exists>e. json response = Inl e) \<longrightarrow>
              message = js ''Failed to remove user from group: HTTP '' @ number_to_string (status response)) \<and>
           (\<forall>errorBody.
              json response = Inr errorBody \<and>
              get_prop_opt errorBody (js ''errorSummary'') = JUndefined \<longrightarrow>
              message = js ''Failed to remove user from group: HTTP '' @ number_to_string (status response)) \<and>
           (\<forall>errorBody errorSummary.
              json response = Inr errorBody \<and>
              get_prop errorBody (js ''errorSummary'') = Inr errorSummary \<and>
              \<not> convertible errorSummary \<longrightarrow>
              message = js ''Failed to remove user from group: HTTP '' @ number_to_string (status response))"
proof -
  from invoke_response [OF assms(1,2)] assms(3)
  have "fst (invoke w params context) =
        Inl (JErr (js ''Error'')
               (case json response of
                  Inl e \<Rightarrow> js ''Failed to remove user from group: HTTP '' @ number_to_string (status response)
                | Inr errorBody \<Rightarrow>
                    (case get_prop errorBody (js ''errorSummary'') of
                       Inl e \<Rightarrow> js ''Failed to remove user from group: HTTP '' @ number_to_string (status response)
                     | Inr errorSummary \<Rightarrow>
                         if truthy errorSummary then
                           (case to_string errorSummary of
                              Inl e \<Rightarrow> js ''Failed to remove user from group: HTTP ''
                                       @ number_to_string (status response)
                            | Inr summary \<Rightarrow> js ''Failed to remove user from group: '' @ summary)
                         else js ''Failed to remove user from group: HTTP '' @ number_to_string (status response)))
               (Some (status response)))"
    (is "_ = Inl (JErr _ ?message _)")
    by auto
  moreover have "\<forall>properties summary.
              json response = Inr (JObj properties) \<and>
              get properties (js ''errorSummary'') = JStr summary \<and> summary \<noteq> [] \<longrightarrow>
              ?message = js ''Failed to remove user from group: '' @ summary"
    by simp
  moreover have "\<forall>errorBody errorSummary summary.
              json response = Inr errorBody \<and>
              get_prop errorBody (js ''errorSummary'') = Inr errorSummary \<and> truthy errorSummary \<and>
              to_string errorSummary = Inr summary \<longrightarrow>
              ?message = js ''Failed to remove user from group: '' @ summary"
    by simp
  moreover have "(\<exists>e. json response = Inl e) \<longrightarrow>
              ?message = js ''Failed to remove user from group: HTTP '' @ number_to_string (status response)"
    by auto
  moreover have "\<forall>errorBody.
              json response = Inr errorBody \<and>
              get_prop_opt errorBody (js ''errorSummary'') = JUndefined \<longrightarrow>
              ?message = js ''Failed to remove user from group: HTTP '' @ number_to_string (status response)"
    by (auto simp: get_prop_opt_def split: sum.splits)
  moreover have "\<forall>errorBody errorSummary.
              json response = Inr errorBody \<and>
              get_prop errorBody (js ''errorSummary'') = Inr errorSummary \<and>
              \<not> convertible errorSummary \<longrightarrow>
              ?message = js ''Failed to remove user from group: HTTP '' @ number_to_string (status response)"
    by (auto simp: convertible_def split: sum.splits)
  ultimately show ?thesis by blast
qed

theorem invoke_failure_message_witness:
  "fst (invoke (mockWorld notFound) mockParams mockContext) =
     Inl (JErr (js ''Error'')
            (js ''Failed to remove user from group: Not found: User user123 not found in group group456'')
            (Some 404)) \<and>
   fst (invoke (mockWorld notJson) mockParams mockContext) =
     Inl (JErr (js ''Error'') (js ''Failed to remove user from group: HTTP 500'') (Some 500))"
proof -
  let ?properties = "[(js ''errorCode'', JStr (js ''E0000007'')),
                      (js ''errorSummary'',
                       JStr (js ''Not found: User user123 not found in group group456'')),
                      (js ''errorLink'', JStr (js ''E0000007'')),
                      (js ''errorId'', JStr (js ''oae123''))]"
  have sent: "Fetch mockRequest \<in> set (snd (invoke (mockWorld notFound) mockParams mockContext))"
    by code_simp
  have answered: "fetch (mockWorld notFound) mockRequest = Inr notFound"
    by (simp add: mockWorld_def)
  have failure: "\<not> ok notFound" and code: "status notFound = 404"
    and body: "json notFound = Inr (JObj ?properties)"
    by (simp_all add: notFound_def)
  have summary: "get ?properties (js ''errorSummary'')
                   = JStr (js ''Not found: User user123 not found in group group456'')"
    and nonempty: "js ''Not found: User user123 not found in group group456'' \<noteq> []"
    and shown: "js ''Failed to remove user from group: ''
                 @ js ''Not found: User user123 not found in group group456''
               = js ''Failed to remove user from group: Not found: User user123 not found in group group456''"
    by code_simp+
  from invoke_failure_message [OF sent answered failure] obtain message where
    raised: "fst (invoke (mockWorld notFound) mockParams mockContext)
               = Inl (JErr (js ''Error'') message (Some (status notFound)))"
    and verbatim: "\<forall>properties summary.
              json notFound = Inr (JObj properties) \<and>
              get properties (js ''errorSummary'') = JStr summary \<and> summary \<noteq> [] \<longrightarrow>
              message = js ''Failed to remove user from group: '' @ summary"
    by blast
  from verbatim body summary nonempty
  have "message = js ''Failed to remove user from group: ''
                    @ js ''Not found: User user123 not found in group group456''"
    by blast
  with raised code shown have first: "fst (invoke (mockWorld notFound) mockParams mockContext) =
     Inl (JErr (js ''Error'')
            (js ''Failed to remove user from group: Not found: User user123 not found in group group456'')
            (Some 404))"
    by simp
  have sent': "Fetch mockRequest \<in> set (snd (invoke (mockWorld notJson) mockParams mockContext))"
    by code_simp
  have answered': "fetch (mockWorld notJson) mockRequest = Inr notJson"
    by (simp add: mockWorld_def)
  have failure': "\<not> ok notJson" and code': "status notJson = 500"
    and body': "json notJson = Inl (Error (js ''Not JSON''))"
    by (simp_all add: notJson_def)
  have shown': "js ''Failed to remove user from group: HTTP '' @ number_to_string 500
               = js ''Failed to remove user from group: HTTP 500''"
    by code_simp
  from invoke_failure_message [OF sent' answered' failure'] obtain message' where
    raised': "fst (invoke (mockWorld notJson) mockParams mockContext)
               = Inl (JErr (js ''Error'') message' (Some (status notJson)))"
    and unparsed: "(\<exists>e. json notJson = Inl e) \<longrightarrow>
              message' = js ''Failed to remove user from group: HTTP '' @ number_to_string (status notJson)"
    by blast
  from unparsed body' code' shown'
  have "message' = js ''Failed to remove user from group: HTTP 500''"
    by simp
  with raised' code' have "fst (invoke (mockWorld notJson) mockParams mockContext) =
     Inl (JErr (js ''Error'') (js ''Failed to remove user from group: HTTP 500'') (Some 500))"
    by simp
  with first show ?thesis by blast
qed

text \<open>
  Claim C3 as stated lets every summary field of the body into the message. A body whose
  summary is the empty string gets the status message instead.
\<close>

theorem invoke_empty_summary_counterexample:
  "json emptySummary = Inr (JObj [(js ''errorSummary'', JStr [])]) \<and>
   fst (invoke (mockWorld emptySummary) mockParams mockContext) =
     Inl (JErr (js ''Error'') (js ''Failed to remove user from group: HTTP 400'') (Some 400)) \<and>
   js ''Failed to remove user from group: HTTP 400'' \<noteq> js ''Failed to remove user from group: '' @ []"
  by code_simp

text \<open>
  Claim C10. On a response outside the success range whose JSON body has a falsy
  \<open>errorSummary\<close>, the message is the one by status.
\<close>

theorem invoke_falsy_summary_defaults:
  assumes "Fetch req \<in> set (snd (invoke w params context))"
    and "fetch w req = Inr response"
    and "\<not> ok response"
    and "json response = Inr errorBody"
    and "get_prop errorBody (js ''errorSummary'') = Inr summary"
    and "\<not> truthy summary"
  shows "fst (invoke w params context) =
           Inl (JErr (js ''Error'')
                  (js ''Failed to remove user from group: HTTP '' @ number_to_string (status response))
                  (Some (status response)))"
  using invoke_response [OF assms(1,2)] assms(3-6) by auto

theorem invoke_falsy_summary_defaults_witness:
  "fst (invoke (mockWorld emptySummary) mockParams mockContext) =
     Inl (JErr (js ''Error'') (js ''Failed to remove user from group: HTTP 400'') (Some 400))"
proof -
  have sent: "Fetch mockRequest \<in> set (snd (invoke (mockWorld emptySummary) mockParams mockContext))"
    by code_simp
  have answered: "fetch (mockWorld emptySummary) mockRequest = Inr emptySummary"
    by (simp add: mockWorld_def)
  have failure: "\<not> ok emptySummary" and code: "status emptySummary = 400"
    and body: "json emptySummary = Inr (JObj [(js ''errorSummary'', JStr [])])"
    by (simp_all add: emptySummary_def)
  have summary: "get_prop (JObj [(js ''errorSummary'', JStr [])]) (js ''errorSummary'') = Inr (JStr [])"
    and falsy: "\<not> truthy (JStr [])"
    and shown: "js ''Failed to remove user from group: HTTP '' @ number_to_string 400
               = js ''Failed to remove user from group: HTTP 400''"
    by code_simp+
  from invoke_falsy_summary_defaults [OF sent answered failure body summary falsy] code shown
  show ?thesis by simp
qed

text \<open>
  Claim C5, with the resolver of the specification. A run without a configured credential
  scheme fails and sends no request, whatever else its input is. Authorization is resolved
  after the first log line and the base URL; whenever those steps pass (the identifiers
  are convertible and the address resolves), the error of the run is
  \<open>No authentication configured\<close>.
\<close>

theorem invoke_without_credentials:
  assumes "\<not> credentials_configured context"
  shows "fetches (snd (invoke w params context)) = [] \<and>
         (\<exists>e. fst (invoke w params context) = Inl e) \<and>
         (\<forall>baseUrl.
            convertible (get (resolvedParams w params context) (js ''userId'')) \<and>
            convertible (get (resolvedParams w params context) (js ''groupId'')) \<and>
            getBaseUrl (resolvedParams w params context) context = Inr baseUrl \<longrightarrow>
            fst (invoke w params context) = Inl (Error (js ''No authentication configured'')))"
proof (cases "convertible (get (resolvedParams w params context) (js ''userId'')) \<and>
              convertible (get (resolvedParams w params context) (js ''groupId''))")
  case False
  with invoke_not_started [of w params "context"] show ?thesis by blast
next
  case True
  show ?thesis
  proof (cases "getBaseUrl (resolvedParams w params context) context")
    case (Inl e)
    from invoke_no_address [OF Inl] Inl show ?thesis by simp
  next
    case (Inr baseUrl)
    from invoke_no_credentials [OF Inr assms] True Inr show ?thesis by simp
  qed
qed

theorem invoke_without_credentials_witness:
  "fetches (snd (invoke (mockWorld noContent) mockParams contextWithoutToken)) = [] \<and>
   fst (invoke (mockWorld noContent) mockParams contextWithoutToken) =
     Inl (Error (js ''No authentication configured''))"
proof -
  have none: "\<not> credentials_configured contextWithoutToken"
    and ids: "convertible (get (resolvedParams (mockWorld noContent) mockParams contextWithoutToken)
                (js ''userId''))"
        "convertible (get (resolvedParams (mockWorld noContent) mockParams contextWithoutToken)
                (js ''groupId''))"
    and base: "getBaseUrl (resolvedParams (mockWorld noContent) mockParams contextWithoutToken)
                 contextWithoutToken = Inr (js ''https://example.okta.com'')"
    by code_simp+
  from invoke_without_credentials [OF none, of "mockWorld noContent" mockParams] ids base
  show ?thesis by blast
qed

section \<open>Validation of the identifiers\<close>

text \<open>
  The bundle rejects a \<open>userId\<close> or \<open>groupId\<close> that is missing, empty or not a string
  before it sends anything (its first log line, built before the checks, needs them
  convertible).
\<close>

lemma invoke_bundle_validates:
  assumes "convertible (get params (js ''userId''))" and "convertible (get params (js ''groupId''))"
  shows
  "(\<not> truthy (get params (js ''userId'')) \<or> \<not> is_string (get params (js ''userId'')) \<longrightarrow>
      fst (invoke_bundle w params context) = Inl (Error (js ''Invalid or missing userId parameter'')) \<and>
      fetches (snd (invoke_bundle w params context)) = []) \<and>
   (truthy (get params (js ''userId'')) \<and> is_string (get params (js ''userId'')) \<and>
    (\<not> truthy (get params (js ''groupId'')) \<or> \<not> is_string (get params (js ''groupId''))) \<longrightarrow>
      fst (invoke_bundle w params context) = Inl (Error (js ''Invalid or missing groupId parameter'')) \<and>
      fetches (snd (invoke_bundle w params context)) = [])"
proof -
  from assms obtain userText groupText where
    "to_string (get params (js ''userId'')) = Inr userText"
    "to_string (get params (js ''groupId'')) = Inr groupText"
    by (auto simp: convertible_iff)
  then show ?thesis
    by (auto simp: invoke_bundle_def Let_def fetches_def template_two)
qed

text \<open>
  Claim C1 at parameters without \<open>userId\<close>: \<open>invoke\<close> of \<open>script.mjs\<close> does not
  validate; it sends the request for the user \<open>undefined\<close> and reports success.
\<close>

theorem invoke_missing_userId_sends_request:
  "invoke (mockWorld noContent) missingUserId mockContext =
     (Inr (JObj [(js ''userId'', JUndefined),
                 (js ''groupId'', JStr (js ''group456'')),
                 (js ''removed'', JBool True),
                 (js ''address'', JStr (js ''https://example.okta.com'')),
                 (js ''removedAt'', JStr (js ''2024-01-15T10:30:00.000Z''))]),
      [ConsoleLog [JStr (js ''Starting Okta user group removal: user undefined from group group456'')],
       Fetch \<lparr> url = js ''https://example.okta.com/api/v1/groups/group456/users/undefined'',
                http_method = js ''DELETE'',
                headers = [(js ''Authorization'', js ''SSWS test-okta-token-123456''),
                           (js ''Accept'', js ''application/json''),
                           (js ''Content-Type'', js ''application/json'')] \<rparr>,
       ConsoleLog [JStr (js ''Successfully removed user undefined from group group456'')]])"
  by code_simp

end
